theory Spec2Isabelle
  imports Complex_Main "HOL-Library.Sublist"
begin

section \<open>JavaScript strings\<close>

text \<open>
  A JavaScript string is a sequence of UTF-16 code units. The sources compare, trim and
  search strings code unit by code unit, so a string is modelled as the list of its code
  units. \<open>js\<close> turns an ASCII literal into that representation.
\<close>

type_synonym jsstring = "nat list"

definition js :: "string \<Rightarrow> jsstring" where
  "js s = map of_char s"

text \<open>
  \<open>String.prototype.trim\<close> removes leading and trailing WhiteSpace and LineTerminator
  code points: TAB, LF, VT, FF, CR, SP, NBSP, U+1680, U+2000 to U+200A, U+2028, U+2029,
  U+202F, U+205F, U+3000 and U+FEFF.
\<close>

definition is_js_whitespace :: "nat \<Rightarrow> bool" where
  "is_js_whitespace c \<longleftrightarrow>
     c = 9 \<or> c = 10 \<or> c = 11 \<or> c = 12 \<or> c = 13 \<or> c = 32 \<or> c = 160 \<or> c = 5760 \<or>
     (8192 \<le> c \<and> c \<le> 8202) \<or> c = 8232 \<or> c = 8233 \<or> c = 8239 \<or> c = 8287 \<or>
     c = 12288 \<or> c = 65279"

definition trim :: "jsstring \<Rightarrow> jsstring" where
  "trim s = rev (dropWhile is_js_whitespace (rev (dropWhile is_js_whitespace s)))"

text \<open>\<open>s.includes(t)\<close>: \<open>t\<close> occurs in \<open>s\<close> as a contiguous run of code units.\<close>

fun js_includes :: "jsstring \<Rightarrow> jsstring \<Rightarrow> bool" where
  "js_includes [] t = (t = [])"
| "js_includes (c # cs) t = (prefix t (c # cs) \<or> js_includes cs t)"


section \<open>Chat Relay (the webview's \<open>App\<close> component)\<close>

subsection \<open>Values received from the backend\<close>

text \<open>
  \<open>res.json()\<close> yields an arbitrary JSON value. An object is the list of its own
  properties, each key once. Numbers are carried along and never inspected.
\<close>

datatype json =
    JNull
  | JBool bool
  | JNum rat
  | JStr jsstring
  | JArr "json list"
  | JObj "(jsstring \<times> json) list"

text \<open>
  The exceptions of the model: a TypeError of JavaScript, a rejected \<open>fetch\<close>, a body
  that is not JSON, a failed file read, and React's refusal of an object as a child.
\<close>

datatype js_error = TypeError | NetworkError | SyntaxError | IOError | InvalidChild

text \<open>
  Reading a property \<open>v.k\<close> for the names the component reads (\<open>message\<close>,
  \<open>results\<close>, \<open>name\<close>, \<open>path\<close>): on \<open>null\<close> the read throws a TypeError; on an
  object it is the own property or \<open>undefined\<close> (\<open>None\<close>); booleans, numbers, strings
  and arrays have no property of any of these names.
\<close>

fun get_property :: "json \<Rightarrow> jsstring \<Rightarrow> js_error + json option" where
  "get_property JNull k = Inl TypeError"
| "get_property (JObj props) k = Inr (map_of props k)"
| "get_property (JBool b) k = Inr None"
| "get_property (JNum n) k = Inr None"
| "get_property (JStr s) k = Inr None"
| "get_property (JArr xs) k = Inr None"

subsection \<open>Conversation entries and component state\<close>

datatype Role = User | Bot

text \<open>
  \<open>interface ChatMessage { role; text; results? }\<close>. At run time \<open>text\<close> and
  \<open>results\<close> hold whatever the response carried, so both are JSON values or
  \<open>undefined\<close>.
\<close>

record ChatMessage =
  role :: Role
  msg_text :: "json option"
  results :: "json option"

text \<open>
  The three \<open>useState\<close> cells of the component. \<open>render_fault\<close> is not a cell of the
  source: it records the exception with which a render of the component failed. No
  error boundary surrounds the component, so React unmounts it then and the cells are
  no longer shown.
\<close>

record relay_state =
  input :: jsstring
  messages :: "ChatMessage list"
  isLoading :: bool
  render_fault :: "js_error option"

definition greeting_text :: jsstring where
  "greeting_text =
     [50504, 45397, 54616, 49464, 50836, 33, 32, 39, 48712, 32, 54260, 45908, 32, 52286,
      50500, 51480, 39, 32, 46608, 45716, 32, 39, 52572, 44540, 32, 47928, 49436, 32,
      48372, 50668, 51480, 39, 32, 52376, 47100, 32, 47932, 50612, 48372, 49464, 50836, 46]"

definition error_text :: jsstring where
  "error_text =
     [50724, 47448, 44032, 32, 48156, 49373, 54664, 49845, 45768, 45796, 46, 32, 48177,
      50644, 46300, 32, 50672, 44208, 51012, 32, 54869, 51064, 54616, 49464, 50836, 46]"

definition greeting_entry :: ChatMessage where
  "greeting_entry = \<lparr>role = Bot, msg_text = Some (JStr greeting_text), results = None\<rparr>"

definition user_entry :: "jsstring \<Rightarrow> ChatMessage" where
  "user_entry userMsg = \<lparr>role = User, msg_text = Some (JStr userMsg), results = None\<rparr>"

definition generic_error_entry :: ChatMessage where
  "generic_error_entry = \<lparr>role = Bot, msg_text = Some (JStr error_text), results = None\<rparr>"

definition relay_init :: relay_state where
  "relay_init = \<lparr>input = [], messages = [greeting_entry], isLoading = False,
                  render_fault = None\<rparr>"

subsection \<open>\<open>handleSend\<close> up to its first \<open>await\<close>\<close>

text \<open>
  The request handed to \<open>fetch\<close>. \<open>body\<close> is the value given to \<open>JSON.stringify\<close>.
\<close>

record http_request =
  url :: jsstring
  http_method :: jsstring
  content_type :: jsstring
  body :: json

definition agent_request :: "jsstring \<Rightarrow> http_request" where
  "agent_request userMsg =
     \<lparr>url = js ''http://localhost:8000/api/agent'', http_method = js ''POST'',
      content_type = js ''application/json'',
      body = JObj [(js ''user_query'', JStr userMsg)]\<rparr>"

text \<open>
  \<open>if (!input.trim() || isLoading) return;\<close> then the three state updates and the call
  of \<open>fetch\<close>. The result is the new state and the network calls issued.
\<close>

definition handleSend :: "relay_state \<Rightarrow> relay_state \<times> http_request list" where
  "handleSend s =
     (if trim (input s) = [] \<or> isLoading s then (s, [])
      else
        let userMsg = input s in
        (s\<lparr>input := [], messages := messages s @ [user_entry userMsg], isLoading := True\<rparr>,
         [agent_request userMsg]))"

subsection \<open>\<open>handleSend\<close> after the \<open>await\<close>\<close>

text \<open>
  What the two awaited promises deliver: \<open>fetch\<close> rejects, \<open>res.json()\<close> rejects, or
  the body parses to a JSON value.
\<close>

datatype fetch_outcome = FetchRejected | JsonRejected | Parsed json

text \<open>
  The object literal \<open>{ role: "bot", text: data.message, results: data.results }\<close>.
\<close>

definition bot_entry :: "json \<Rightarrow> js_error + ChatMessage" where
  "bot_entry data =
     (case get_property data (js ''message'') of
        Inl e \<Rightarrow> Inl e
      | Inr m \<Rightarrow>
          (case get_property data (js ''results'') of
             Inl e \<Rightarrow> Inl e
           | Inr r \<Rightarrow> Inr \<lparr>role = Bot, msg_text = m, results = r\<rparr>))"

text \<open>
  \<open>setMessages(updater)\<close>. React queues the updater and runs it when it renders the
  component. An exception of the updater therefore never leaves the setter and never
  reaches a \<open>catch\<close> around it: it is raised by the render, which fails with it.
\<close>

definition setMessages ::
  "(ChatMessage list \<Rightarrow> js_error + ChatMessage list) \<Rightarrow> relay_state \<Rightarrow> relay_state" where
  "setMessages updater s =
     (case updater (messages s) of
        Inr ms \<Rightarrow> s\<lparr>messages := ms\<rparr>
      | Inl e \<Rightarrow> s\<lparr>render_fault := Some e\<rparr>)"

definition try_block :: "fetch_outcome \<Rightarrow> relay_state \<Rightarrow> js_error + relay_state" where
  "try_block outcome s =
     (case outcome of
        FetchRejected \<Rightarrow> Inl NetworkError
      | JsonRejected \<Rightarrow> Inl SyntaxError
      | Parsed data \<Rightarrow>
          Inr (setMessages
                 (\<lambda>prev. case bot_entry data of Inl e \<Rightarrow> Inl e | Inr m \<Rightarrow> Inr (prev @ [m])) s))"

definition catch_block :: "relay_state \<Rightarrow> js_error + relay_state" where
  "catch_block s = Inr (s\<lparr>messages := messages s @ [generic_error_entry]\<rparr>)"

text \<open>
  \<open>try { ... } catch (err) { ... } finally { setIsLoading(false); }\<close>. \<open>Inl\<close> is a
  fault that leaves \<open>handleSend\<close>.
\<close>

definition handleSend_resume :: "fetch_outcome \<Rightarrow> relay_state \<Rightarrow> js_error + relay_state" where
  "handleSend_resume outcome s =
     (case (case try_block outcome s of
              Inl err \<Rightarrow> catch_block s
            | Inr s1 \<Rightarrow> Inr s1) of
        Inl e \<Rightarrow> Inl e
      | Inr s2 \<Rightarrow> Inr (s2\<lparr>isLoading := False\<rparr>))"

subsection \<open>Rendering the conversation\<close>

text \<open>
  What JavaScript takes for true: \<open>undefined\<close>, \<open>null\<close>, \<open>false\<close>, \<open>0\<close> and the
  empty string are falsy, everything else is truthy.
\<close>

fun truthy :: "json option \<Rightarrow> bool" where
  "truthy None = False"
| "truthy (Some JNull) = False"
| "truthy (Some (JBool b)) = b"
| "truthy (Some (JNum n)) = (n \<noteq> 0)"
| "truthy (Some (JStr t)) = (t \<noteq> [])"
| "truthy (Some (JArr xs)) = True"
| "truthy (Some (JObj props)) = True"

text \<open>
  \<open>v > 0\<close> for a JSON value \<open>v\<close>: the value is turned into a number first. \<open>null\<close>
  is 0, \<open>true\<close> is 1, an object is not a number; an array is read through the string
  that joins its elements, so only an array of one element can be a number. How
  JavaScript reads a number from a string rests on floating point, and is taken as the
  parameter \<open>str_gt0\<close>: whether the number read from the string is greater than 0.
\<close>

fun js_gt0 :: "(jsstring \<Rightarrow> bool) \<Rightarrow> json \<Rightarrow> bool" where
  "js_gt0 str_gt0 JNull = False"
| "js_gt0 str_gt0 (JBool b) = b"
| "js_gt0 str_gt0 (JNum n) = (0 < n)"
| "js_gt0 str_gt0 (JStr t) = str_gt0 t"
| "js_gt0 str_gt0 (JObj props) = False"
| "js_gt0 str_gt0 (JArr []) = False"
| "js_gt0 str_gt0 (JArr [JNull]) = False"
| "js_gt0 str_gt0 (JArr [JBool b]) = False"
| "js_gt0 str_gt0 (JArr [JNum n]) = (0 < n)"
| "js_gt0 str_gt0 (JArr [JStr t]) = str_gt0 t"
| "js_gt0 str_gt0 (JArr [JObj props]) = False"
| "js_gt0 str_gt0 (JArr [JArr ys]) = js_gt0 str_gt0 (JArr ys)"
| "js_gt0 str_gt0 (JArr (x # y # zs)) = False"

text \<open>
  \<open>msg.results.length > 0\<close> for a truthy \<open>msg.results\<close>: a string and an array have
  their length, an object has its own property of that name if any, \<open>true\<close> and a number
  have none, and \<open>undefined > 0\<close> is false.
\<close>

fun length_gt0 :: "(jsstring \<Rightarrow> bool) \<Rightarrow> json \<Rightarrow> bool" where
  "length_gt0 str_gt0 (JStr t) = (0 < length t)"
| "length_gt0 str_gt0 (JArr xs) = (0 < length xs)"
| "length_gt0 str_gt0 (JObj props) =
     (case map_of props (js ''length'') of None \<Rightarrow> False | Some v \<Rightarrow> js_gt0 str_gt0 v)"
| "length_gt0 str_gt0 JNull = False"
| "length_gt0 str_gt0 (JBool b) = False"
| "length_gt0 str_gt0 (JNum n) = False"

text \<open>
  The callback of \<open>msg.results.map\<close>: the children \<open>file.name\<close> and \<open>file.path\<close> of one
  list item, or the TypeError of reading them on \<open>null\<close>.
\<close>

fun file_children :: "json list \<Rightarrow> js_error + json option list" where
  "file_children [] = Inr []"
| "file_children (file # files) =
     (case get_property file (js ''name'') of
        Inl e \<Rightarrow> Inl e
      | Inr n \<Rightarrow>
          (case get_property file (js ''path'') of
             Inl e \<Rightarrow> Inl e
           | Inr p \<Rightarrow>
               (case file_children files of
                  Inl e \<Rightarrow> Inl e
                | Inr cs \<Rightarrow> Inr (n # p # cs))))"

text \<open>
  \<open>msg.results && msg.results.length > 0 && (... msg.results.map(...) ...)\<close>: the values
  that become children of the entry, or the exception of evaluating the expression.
  Only an array has a \<open>map\<close> that can be called; on a string and on an object the call
  throws a TypeError.
\<close>

definition results_children ::
  "(jsstring \<Rightarrow> bool) \<Rightarrow> json option \<Rightarrow> js_error + json option list" where
  "results_children str_gt0 r =
     (case r of
        None \<Rightarrow> Inr [None]
      | Some v \<Rightarrow>
          if \<not> truthy (Some v) then Inr [Some v]
          else if \<not> length_gt0 str_gt0 v then Inr [Some (JBool False)]
          else (case v of JArr files \<Rightarrow> file_children files | _ \<Rightarrow> Inl TypeError))"

text \<open>
  The component function on the conversation, entry by entry: the children \<open>msg.text\<close>
  and those of the results, or the first exception.
\<close>

fun entries_children ::
  "(jsstring \<Rightarrow> bool) \<Rightarrow> ChatMessage list \<Rightarrow> js_error + json option list" where
  "entries_children str_gt0 [] = Inr []"
| "entries_children str_gt0 (msg # msgs) =
     (case results_children str_gt0 (results msg) of
        Inl e \<Rightarrow> Inl e
      | Inr cs \<Rightarrow>
          (case entries_children str_gt0 msgs of
             Inl e \<Rightarrow> Inl e
           | Inr ds \<Rightarrow> Inr (msg_text msg # cs @ ds)))"

text \<open>
  What React accepts as a child: \<open>undefined\<close>, \<open>null\<close>, booleans, numbers, strings and
  arrays of such; a plain object is refused with an exception.
\<close>

fun valid_child :: "json \<Rightarrow> bool" where
  "valid_child (JObj props) = False"
| "valid_child (JArr xs) = list_all valid_child xs"
| "valid_child JNull = True"
| "valid_child (JBool b) = True"
| "valid_child (JNum n) = True"
| "valid_child (JStr t) = True"

text \<open>
  One render of the component: \<open>None\<close> when it succeeds, the exception otherwise. The
  component function runs first, React checks the children afterwards.
\<close>

definition render_messages :: "(jsstring \<Rightarrow> bool) \<Rightarrow> ChatMessage list \<Rightarrow> js_error option" where
  "render_messages str_gt0 msgs =
     (case entries_children str_gt0 msgs of
        Inl e \<Rightarrow> Some e
      | Inr cs \<Rightarrow>
          if list_all (\<lambda>c. case c of None \<Rightarrow> True | Some v \<Rightarrow> valid_child v) cs then None
          else Some InvalidChild)"

text \<open>
  The render that follows a change of state. An exception of a queued updater comes
  first, since the updater runs at the head of the component function.
\<close>

definition after_render :: "(jsstring \<Rightarrow> bool) \<Rightarrow> relay_state \<Rightarrow> relay_state" where
  "after_render str_gt0 s =
     (case render_fault s of
        Some e \<Rightarrow> s
      | None \<Rightarrow> s\<lparr>render_fault := render_messages str_gt0 (messages s)\<rparr>)"


section \<open>Content Renderer (\<open>getWebviewContent\<close>)\<close>

subsection \<open>Replacement patterns of \<open>String.prototype.replace\<close>\<close>

definition is_digit :: "nat \<Rightarrow> bool" where
  "is_digit c \<longleftrightarrow> 48 \<le> c \<and> c \<le> 57"

text \<open>
  GetSubstitution of ECMA-262 for a pattern without named groups. The arguments are
  the matched text, the text before and after the match, the captures and the
  replacement template. Code unit 36 is \<open>$\<close>; 38, 96 and 39 are \<open>&\<close>, the backquote
  and the quote.
\<close>

fun get_substitution ::
  "jsstring \<Rightarrow> jsstring \<Rightarrow> jsstring \<Rightarrow> jsstring list \<Rightarrow> jsstring \<Rightarrow> jsstring" where
  "get_substitution matched pre post caps [] = []"
| "get_substitution matched pre post caps [c] = [c]"
| "get_substitution matched pre post caps (c # d # t) =
     (if c \<noteq> 36 then c # get_substitution matched pre post caps (d # t)
      else if d = 36 then 36 # get_substitution matched pre post caps t
      else if d = 38 then matched @ get_substitution matched pre post caps t
      else if d = 96 then pre @ get_substitution matched pre post caps t
      else if d = 39 then post @ get_substitution matched pre post caps t
      else if is_digit d then
        (case t of
           e # t' \<Rightarrow>
             if is_digit e \<and> 10 * (d - 48) + (e - 48) \<le> length caps then
               (if 1 \<le> 10 * (d - 48) + (e - 48)
                then caps ! (10 * (d - 48) + (e - 48) - 1) @
                       get_substitution matched pre post caps t'
                else 36 # d # e # get_substitution matched pre post caps t')
             else if 1 \<le> d - 48 \<and> d - 48 \<le> length caps
             then caps ! (d - 48 - 1) @ get_substitution matched pre post caps t
             else 36 # d # get_substitution matched pre post caps t
         | [] \<Rightarrow>
             if 1 \<le> d - 48 \<and> d - 48 \<le> length caps
             then caps ! (d - 48 - 1) @ get_substitution matched pre post caps t
             else 36 # d # get_substitution matched pre post caps t)
      else 36 # get_substitution matched pre post caps (d # t))"

subsection \<open>The regular expression \<open>/(src|href)="\.\/assets\/(.*?)"/g\<close>\<close>

definition is_line_terminator :: "nat \<Rightarrow> bool" where
  "is_line_terminator c \<longleftrightarrow> c = 10 \<or> c = 13 \<or> c = 8232 \<or> c = 8233"

fun strip_prefix :: "jsstring \<Rightarrow> jsstring \<Rightarrow> jsstring option" where
  "strip_prefix [] s = Some s"
| "strip_prefix (p # ps) [] = None"
| "strip_prefix (p # ps) (c # cs) = (if p = c then strip_prefix ps cs else None)"

text \<open>
  \<open>(.*?)"\<close>: the shortest run of code units other than line terminators that is
  followed by a double quote (code unit 34). The result is the run and the text after
  the quote.
\<close>

fun lazy_until_quote :: "jsstring \<Rightarrow> (jsstring \<times> jsstring) option" where
  "lazy_until_quote [] = None"
| "lazy_until_quote (c # cs) =
     (if c = 34 then Some ([], cs)
      else if is_line_terminator c then None
      else (case lazy_until_quote cs of
              None \<Rightarrow> None
            | Some (name, rest) \<Rightarrow> Some (c # name, rest)))"

text \<open>
  A match of the whole expression at the start of \<open>s\<close>: the first capture, the second
  capture and the text after the match.
\<close>

definition match_asset_ref :: "jsstring \<Rightarrow> (jsstring \<times> jsstring \<times> jsstring) option" where
  \<open>match_asset_ref s =
     (case (case strip_prefix (js ''src'') s of
              Some r \<Rightarrow> Some (js ''src'', r)
            | None \<Rightarrow>
                (case strip_prefix (js ''href'') s of
                   Some r \<Rightarrow> Some (js ''href'', r)
                 | None \<Rightarrow> None)) of
        None \<Rightarrow> None
      | Some (attr, r) \<Rightarrow>
          (case strip_prefix (js ''="./assets/'') r of
             None \<Rightarrow> None
           | Some r' \<Rightarrow>
               (case lazy_until_quote r' of
                  None \<Rightarrow> None
                | Some (name, rest) \<Rightarrow> Some (attr, name, rest))))\<close>

lemma strip_prefix_length: "strip_prefix p s = Some r \<Longrightarrow> length r + length p = length s"
  by (induction p s rule: strip_prefix.induct) (auto split: if_splits)

lemma lazy_until_quote_length: "lazy_until_quote s = Some (n, r) \<Longrightarrow> length r < length s"
  by (induction s arbitrary: n r) (auto split: if_splits option.splits)

lemma match_asset_ref_length:
  "match_asset_ref s = Some (a, n, r) \<Longrightarrow> length r < length s"
  by (auto simp: match_asset_ref_def split: option.splits
      dest!: strip_prefix_length lazy_until_quote_length)

text \<open>
  \<open>html.replace(regex, template)\<close> with the global flag: scan from left to right, replace
  each match by the expanded template and go on after the match. \<open>pre\<close> is the text
  already scanned.
\<close>

function replace_asset_refs :: "jsstring \<Rightarrow> jsstring \<Rightarrow> jsstring \<Rightarrow> jsstring" where
  "replace_asset_refs template pre [] = []"
| "replace_asset_refs template pre (c # cs) =
     (case match_asset_ref (c # cs) of
        Some (attr, name, rest) \<Rightarrow>
          (let matched = take (length (c # cs) - length rest) (c # cs) in
           get_substitution matched pre rest [attr, name] template @
           replace_asset_refs template (pre @ matched) rest)
      | None \<Rightarrow> c # replace_asset_refs template (pre @ [c]) cs)"
  by pat_completeness auto
termination
  by (relation "measure (\<lambda>(template, pre, s). length s)")
     (auto dest: match_asset_ref_length)

subsection \<open>\<open>html.replace('<head>', template)\<close>\<close>

fun split_at_first :: "jsstring \<Rightarrow> jsstring \<Rightarrow> (jsstring \<times> jsstring) option" where
  "split_at_first pat [] = (if pat = [] then Some ([], []) else None)"
| "split_at_first pat (c # cs) =
     (if prefix pat (c # cs) then Some ([], drop (length pat) (c # cs))
      else (case split_at_first pat cs of
              None \<Rightarrow> None
            | Some (pre, post) \<Rightarrow> Some (c # pre, post)))"

definition replace_first :: "jsstring \<Rightarrow> jsstring \<Rightarrow> jsstring \<Rightarrow> jsstring" where
  "replace_first pat template s =
     (case split_at_first pat s of
        None \<Rightarrow> s
      | Some (pre, post) \<Rightarrow> pre @ get_substitution pat pre post [] template @ post)"


section \<open>Extension host (\<open>extension.ts\<close>)\<close>

subsection \<open>What the handlers read from the platform\<close>

type_synonym ViewColumn = int

definition ViewColumn_One :: ViewColumn where
  "ViewColumn_One = 1"

record TextEditor =
  viewColumn :: "ViewColumn option"

text \<open>
  What the file system answers for \<open>index.html\<close>: \<open>fs.existsSync\<close> is false; or the
  path exists and \<open>fs.readFileSync\<close> throws (a directory, no permission, a file removed
  in between); or the file is read.
\<close>

datatype file_read = NoSuchFile | ReadFails | FileContent jsstring

text \<open>
  The platform as a handler sees it when it runs: \<open>exePath\<close> and \<open>exeExists\<close> are the
  path of \<open>bin/lumi_backend.exe\<close> and \<open>fs.existsSync\<close> of it; \<open>activeTextEditor\<close> is
  \<open>vscode.window.activeTextEditor\<close>; \<open>htmlPath\<close> is \<open>htmlPath.fsPath\<close> and
  \<open>indexHtml\<close> what the file system answers for that path; \<open>baseUri\<close> is
  \<open>webview.asWebviewUri(buildPath)\<close> as a string and \<open>cspSource\<close> is
  \<open>webview.cspSource\<close>.
\<close>

record host_env =
  exePath :: jsstring
  exeExists :: bool
  activeTextEditor :: "TextEditor option"
  htmlPath :: jsstring
  indexHtml :: file_read
  baseUri :: jsstring
  cspSource :: jsstring

subsection \<open>\<open>getWebviewContent\<close>\<close>

definition csp :: "host_env \<Rightarrow> jsstring" where
  \<open>csp env =
     js ''\<newline>'' @
     js ''        <meta http-equiv="Content-Security-Policy" content="\<newline>'' @
     js ''            default-src 'none';\<newline>'' @
     js ''            style-src '' @
     cspSource env @
     js '' 'unsafe-inline';\<newline>'' @
     js ''            script-src '' @
     cspSource env @
     js '' 'unsafe-inline';\<newline>'' @
     js ''            img-src '' @
     cspSource env @
     js '' data:;\<newline>'' @
     js ''            font-src '' @
     cspSource env @
     js '';\<newline>'' @
     js ''            connect-src http://localhost:8000;\<newline>'' @
     js ''            base-uri '' @
     baseUri env @
     js ''/;\<newline>'' @
     js ''        ">\<newline>'' @
     js ''    ''\<close>

definition asset_template :: "jsstring \<Rightarrow> jsstring" where
  \<open>asset_template base = js ''$1="'' @ base @ js ''/assets/$2"''\<close>

definition head_template :: "host_env \<Rightarrow> jsstring" where
  \<open>head_template env =
     js ''<head>\<newline>'' @
     js ''        <meta charset="UTF-8">\<newline>'' @
     js ''        <meta name="viewport" content="width=device-width, initial-scale=1.0">\<newline>'' @
     js ''        <base href="'' @
     baseUri env @
     js ''/">\<newline>'' @
     js ''        '' @
     csp env @
     js ''\<newline>'' @
     js ''        ''\<close>

text \<open>The first \<open>replace\<close> of \<open>getWebviewContent\<close>, on the whole document.\<close>

definition rewrite_assets :: "jsstring \<Rightarrow> jsstring \<Rightarrow> jsstring" where
  "rewrite_assets base html = replace_asset_refs (asset_template base) [] html"

text \<open>
  \<open>getWebviewContent\<close>: the inline error document when the file does not exist, the
  exception of \<open>fs.readFileSync\<close> when it cannot be read, the document after the two
  \<open>replace\<close> calls otherwise.
\<close>

definition getWebviewContent :: "host_env \<Rightarrow> js_error + jsstring" where
  \<open>getWebviewContent env =
     (case indexHtml env of
        NoSuchFile \<Rightarrow>
          Inr (js ''<html><body><h1>Error</h1><p>Failed to load webview content. File not found: '' @
               htmlPath env @
               js ''</p></body></html>'')
      | ReadFails \<Rightarrow> Inl IOError
      | FileContent html \<Rightarrow>
          Inr (replace_first (js ''<head>'') (head_template env)
                 (rewrite_assets (baseUri env) html)))\<close>

subsection \<open>Documents as text and asset references\<close>

text \<open>
  A document written as a leading text followed by segments: an attribute name, the
  name of an asset and the text up to the next reference. \<open>source_of\<close> is the document
  as the bundler writes it, \<open>rewritten_of\<close> the same document with every reference
  rooted at \<open>base\<close>. A text is inert when \<open>="./assets/\<close> does not occur in it, so that
  every occurrence of that form in the document belongs to one of the segments. A
  segment is well formed when the attribute is \<open>src\<close> or \<open>href\<close>, the asset name holds
  neither a double quote nor a line terminator, and its text is inert. \<open>starts_ref\<close>
  holds of the empty string and of strings that begin with \<open>sr\<close> or \<open>hr\<close>.
\<close>

type_synonym segment = "jsstring \<times> jsstring \<times> jsstring"

fun source_of :: "segment list \<Rightarrow> jsstring" where
  "source_of [] = []"
| \<open>source_of ((attr, name, following) # segs) =
     attr @ js ''="./assets/'' @ name @ js ''"'' @ following @ source_of segs\<close>

fun rewritten_of :: "jsstring \<Rightarrow> segment list \<Rightarrow> jsstring" where
  "rewritten_of base [] = []"
| \<open>rewritten_of base ((attr, name, following) # segs) =
     attr @ js ''="'' @ base @ js ''/assets/'' @ name @ js ''"'' @ following @ rewritten_of base segs\<close>

definition inert_text :: "jsstring \<Rightarrow> bool" where
  \<open>inert_text text \<longleftrightarrow> \<not> js_includes text (js ''="./assets/'')\<close>

fun well_formed_segment :: "segment \<Rightarrow> bool" where
  "well_formed_segment (attr, name, following) \<longleftrightarrow>
     (attr = js ''src'' \<or> attr = js ''href'') \<and>
     list_all (\<lambda>c. c \<noteq> 34 \<and> \<not> is_line_terminator c) name \<and>
     inert_text following"

definition starts_ref :: "jsstring \<Rightarrow> bool" where
  "starts_ref k \<longleftrightarrow> k = [] \<or> (\<exists>k'. k = 115 # 114 # k') \<or> (\<exists>k'. k = 104 # 114 # k')"

subsection \<open>State and observable calls\<close>

text \<open>
  Worker processes and panels are numbered in the order they are created.
  \<open>backendProcess\<close> and \<open>currentPanel\<close> are the two module variables;
  \<open>isBackendReady w\<close> is the variable of that name in the closure made when worker \<open>w\<close>
  was spawned. The other fields belong to the platform: how many workers and panels have
  been created, which workers have not exited, which panels have not been disposed, on
  which panels the \<open>onDidDispose\<close> callback has been registered, and whether the
  extension has been deactivated. An effect is a call the extension makes, or, for
  \<open>Uncaught\<close>, the exception with which a handler ends.
\<close>

record ext_state =
  backendProcess :: "nat option"
  currentPanel :: "nat option"
  isBackendReady :: "nat \<Rightarrow> bool"
  spawned :: nat
  running :: "nat list"
  created :: nat
  openPanels :: "nat list"
  onDidDispose_registered :: "nat list"
  deactivated :: bool

datatype effect =
    Spawn nat jsstring
  | Kill nat
  | CreateWebviewPanel nat jsstring jsstring ViewColumn
  | SetHtml nat jsstring
  | Reveal nat "ViewColumn option"
  | DisposePanel nat
  | ShowErrorMessage jsstring
  | ConsoleLog jsstring
  | ConsoleLogExit "int option" "jsstring option"
  | ConsoleError jsstring jsstring
  | Uncaught js_error

definition ext_init :: ext_state where
  "ext_init =
     \<lparr>backendProcess = None, currentPanel = None, isBackendReady = (\<lambda>w. False),
      spawned = 0, running = [], created = 0, openPanels = [], onDidDispose_registered = [],
      deactivated = False\<rparr>"

subsection \<open>Panel Controller\<close>

text \<open>The callback given to \<open>onDidDispose\<close>: \<open>currentPanel = undefined\<close>, nothing else.\<close>

definition onDidDispose_callback :: "ext_state \<Rightarrow> ext_state" where
  "onDidDispose_callback s = s\<lparr>currentPanel := None\<rparr>"

text \<open>
  \<open>panel.dispose()\<close>: the platform closes the panel and, before the call returns, fires
  \<open>onDidDispose\<close>, which runs the callback if one has been registered on that panel; on
  a panel already disposed the call does nothing.
\<close>

definition dispose_panel :: "nat \<Rightarrow> ext_state \<Rightarrow> ext_state \<times> effect list" where
  "dispose_panel p s =
     (if p \<in> set (openPanels s)
      then
        (let s1 = s\<lparr>openPanels := removeAll p (openPanels s)\<rparr> in
         ((if p \<in> set (onDidDispose_registered s) then onDidDispose_callback s1 else s1),
          [DisposePanel p]))
      else (s, [DisposePanel p]))"

text \<open>\<open>column || vscode.ViewColumn.One\<close>: \<open>undefined\<close> and \<open>0\<close> are falsy.\<close>

definition column_or_One :: "ViewColumn option \<Rightarrow> ViewColumn" where
  "column_or_One column =
     (case column of None \<Rightarrow> ViewColumn_One | Some c \<Rightarrow> if c = 0 then ViewColumn_One else c)"

text \<open>
  \<open>createOrShowWebviewPanel\<close>. When no panel is held, \<open>currentPanel\<close> is assigned the
  new panel first; then \<open>getWebviewContent\<close> is called, and an exception of it ends the
  function there, with the handle assigned and no callback registered; only after the
  content is set is the \<open>onDidDispose\<close> callback registered.
\<close>

definition createOrShowWebviewPanel :: "host_env \<Rightarrow> ext_state \<Rightarrow> ext_state \<times> effect list" where
  "createOrShowWebviewPanel env s =
     (let column = (case activeTextEditor env of Some ed \<Rightarrow> viewColumn ed | None \<Rightarrow> None) in
      case currentPanel s of
        Some p \<Rightarrow> (s, [Reveal p column])
      | None \<Rightarrow>
          (let p = created s;
               s1 = s\<lparr>currentPanel := Some p, created := Suc p,
                      openPanels := openPanels s @ [p]\<rparr>;
               made = CreateWebviewPanel p (js ''lumiPanel'') (js ''Lumi Assistant'')
                        (column_or_One column)
           in case getWebviewContent env of
                Inl e \<Rightarrow> (s1, [made, Uncaught e])
              | Inr html \<Rightarrow>
                  (s1\<lparr>onDidDispose_registered := onDidDispose_registered s1 @ [p]\<rparr>,
                   [made, SetHtml p html])))"

subsection \<open>Process Supervisor\<close>

definition is_Uncaught :: "effect \<Rightarrow> bool" where
  "is_Uncaught fx = (case fx of Uncaught e \<Rightarrow> True | _ \<Rightarrow> False)"

text \<open>
  The listener on \<open>backendProcess.stderr\<close> of worker \<open>w\<close>; \<open>message\<close> is the whole
  chunk of one \<open>data\<close> event as a string, whatever lines it holds. An exception of the
  panel creation ends the listener before the second \<open>if\<close>.
\<close>

definition on_stderr :: "nat \<Rightarrow> jsstring \<Rightarrow> host_env \<Rightarrow> ext_state \<Rightarrow> ext_state \<times> effect list" where
  "on_stderr w message env s =
     (let (s1, fx1) =
            (if js_includes message (js ''Application startup complete'') \<and> \<not> isBackendReady s w
             then createOrShowWebviewPanel env (s\<lparr>isBackendReady := (isBackendReady s)(w := True)\<rparr>)
             else (s, []));
          fx2 =
            (if (js_includes message (js ''ERROR'') \<or> js_includes message (js ''Warning'')) \<and>
                \<not> js_includes message (js ''INFO'')
             then [ShowErrorMessage (js ''Lumi Backend Error: '' @ message)]
             else [])
      in if list_ex is_Uncaught fx1
         then (s1, [ConsoleLog (js ''Lumi Backend: '' @ message)] @ fx1)
         else (s1, [ConsoleLog (js ''Lumi Backend: '' @ message)] @ fx1 @ fx2))"

text \<open>The listener on \<open>exit\<close>.\<close>

definition on_exit :: "int option \<Rightarrow> jsstring option \<Rightarrow> ext_state \<Rightarrow> ext_state \<times> effect list" where
  "on_exit code signal s =
     (let s1 = s\<lparr>backendProcess := None\<rparr> in
      case currentPanel s1 of
        Some p \<Rightarrow> (let (s2, fx) = dispose_panel p s1 in (s2, ConsoleLogExit code signal # fx))
      | None \<Rightarrow> (s1, [ConsoleLogExit code signal]))"

text \<open>The listener on \<open>error\<close>; \<open>err_message\<close> is \<open>err.message\<close>.\<close>

definition on_error :: "jsstring \<Rightarrow> ext_state \<Rightarrow> ext_state \<times> effect list" where
  "on_error err_message s =
     (s\<lparr>backendProcess := None\<rparr>,
      [ConsoleError (js ''Failed to start Lumi backend process.'') err_message,
       ShowErrorMessage (js ''Failed to start Lumi backend: '' @ err_message)])"

text \<open>The command \<open>lumi.start\<close>.\<close>

definition start_command :: "host_env \<Rightarrow> ext_state \<Rightarrow> ext_state \<times> effect list" where
  "start_command env s =
     (case currentPanel s of
        Some p \<Rightarrow> (s, [Reveal p (Some ViewColumn_One)])
      | None \<Rightarrow>
          (case backendProcess s of
             None \<Rightarrow>
               if \<not> exeExists env
               then (s, [ShowErrorMessage
                  (js ''Lumi backend (lumi_backend.exe) not found. Extension might be corrupt.'')])
               else
                 (let w = spawned s in
                  (s\<lparr>backendProcess := Some w,
                     isBackendReady := (isBackendReady s)(w := False),
                     spawned := Suc w, running := running s @ [w]\<rparr>,
                   [Spawn w (exePath env)]))
           | Some w \<Rightarrow> createOrShowWebviewPanel env s))"

text \<open>The disposable pushed first in \<open>activate\<close>, run when the extension is deactivated.\<close>

definition deactivate_disposable :: "ext_state \<Rightarrow> ext_state \<times> effect list" where
  "deactivate_disposable s =
     (let (s1, fx1) = (case currentPanel s of Some p \<Rightarrow> dispose_panel p s | None \<Rightarrow> (s, []));
          (s2, fx2) = (case backendProcess s1 of
                         Some w \<Rightarrow> (s1\<lparr>backendProcess := None\<rparr>, [Kill w])
                       | None \<Rightarrow> (s1, []))
      in (s2, fx1 @ fx2))"

subsection \<open>Events and traces\<close>

datatype event =
    StartCommand host_env
  | StderrData nat jsstring host_env
  | ProcessExit nat "int option" "jsstring option"
  | ProcessError nat jsstring
  | PanelClosed nat
  | PanelClosedUnobserved nat
  | Deactivate

text \<open>
  One event: the platform's part (a worker that exits or fails to start is no longer
  running, a panel the user closes is no longer open) and the handler of the extension.
  \<open>PanelClosed\<close> is the user closing a panel on which the \<open>onDidDispose\<close> callback is
  registered, so that the callback runs; \<open>PanelClosedUnobserved\<close> is the user closing a
  panel on which none is registered, so that no code of the extension runs.
\<close>

fun step :: "ext_state \<Rightarrow> event \<Rightarrow> ext_state \<times> effect list" where
  "step s (StartCommand env) = start_command env s"
| "step s (StderrData w message env) = on_stderr w message env s"
| "step s (ProcessExit w code signal) =
     on_exit code signal (s\<lparr>running := removeAll w (running s)\<rparr>)"
| "step s (ProcessError w err_message) =
     on_error err_message (s\<lparr>running := removeAll w (running s)\<rparr>)"
| "step s (PanelClosed p) =
     (onDidDispose_callback (s\<lparr>openPanels := removeAll p (openPanels s)\<rparr>), [])"
| "step s (PanelClosedUnobserved p) = (s\<lparr>openPanels := removeAll p (openPanels s)\<rparr>, [])"
| "step s Deactivate =
     (let (s1, fx) = deactivate_disposable s in (s1\<lparr>deactivated := True\<rparr>, fx))"

text \<open>
  What the platform can deliver: commands while the extension is active, output of a
  worker that has been spawned, the exit or the start failure of a worker that is
  running, the closing of a panel that is open.
\<close>

fun enabled :: "ext_state \<Rightarrow> event \<Rightarrow> bool" where
  "enabled s (StartCommand env) = (\<not> deactivated s)"
| "enabled s (StderrData w message env) = (w < spawned s)"
| "enabled s (ProcessExit w code signal) = (w \<in> set (running s))"
| "enabled s (ProcessError w err_message) = (w \<in> set (running s))"
| "enabled s (PanelClosed p) =
     (p \<in> set (openPanels s) \<and> p \<in> set (onDidDispose_registered s))"
| "enabled s (PanelClosedUnobserved p) =
     (p \<in> set (openPanels s) \<and> p \<notin> set (onDidDispose_registered s))"
| "enabled s Deactivate = (\<not> deactivated s)"

fun run :: "ext_state \<Rightarrow> event list \<Rightarrow> ext_state \<times> effect list" where
  "run s [] = (s, [])"
| "run s (ev # evs) =
     (let (s1, fx1) = step s ev; (s2, fx2) = run s1 evs in (s2, fx1 @ fx2))"

fun valid_trace :: "ext_state \<Rightarrow> event list \<Rightarrow> bool" where
  "valid_trace s [] = True"
| "valid_trace s (ev # evs) = (enabled s ev \<and> valid_trace (fst (step s ev)) evs)"


section \<open>Example inputs\<close>

definition sent_hi :: relay_state where
  "sent_hi = fst (handleSend (relay_init\<lparr>input := js ''hi''\<rparr>))"

definition folders_reply :: json where
  "folders_reply =
     JObj [(js ''message'', JStr (js ''3 empty folders found'')),
           (js ''results'', JArr [JObj [(js ''name'', JStr (js ''tmp'')),
                                        (js ''path'', JStr (js ''/tmp''))]])]"

definition results_is_text :: json where
  "results_is_text = JObj [(js ''message'', JStr (js ''m'')), (js ''results'', JStr (js ''abc''))]"

definition env0 :: host_env where
  \<open>env0 =
     \<lparr>exePath = js ''/ext/bin/lumi_backend.exe'', exeExists = True, activeTextEditor = None,
      htmlPath = js ''/ext/webview-ui/dist/index.html'',
      indexHtml =
        FileContent (js ''<html><head><script src="./assets/index.js"></script></head></html>''),
      baseUri = js ''https://file.vscode-cdn.net/ext/webview-ui/dist'',
      cspSource = js ''https://*.vscode-cdn.net''\<rparr>\<close>

definition ready_line :: jsstring where
  "ready_line = js ''INFO:     Application startup complete.''"

definition trace_ready :: "event list" where
  "trace_ready = [StartCommand env0, StderrData 0 ready_line env0]"

definition panel_open :: ext_state where
  "panel_open = fst (run ext_init trace_ready)"

definition worker_starting :: ext_state where
  "worker_starting =
     \<lparr>backendProcess = Some 0, currentPanel = None, isBackendReady = (\<lambda>w. False),
      spawned = 1, running = [0], created = 0, openPanels = [], onDidDispose_registered = [],
      deactivated = False\<rparr>"

definition env_unreadable :: host_env where
  "env_unreadable = env0\<lparr>indexHtml := ReadFails\<rparr>"

definition trace_read_fails :: "event list" where
  "trace_read_fails = [StartCommand env0, StderrData 0 ready_line env_unreadable]"

definition stale_handle :: ext_state where
  "stale_handle = fst (run ext_init trace_read_fails)"

definition stale_handle_closed :: ext_state where
  "stale_handle_closed = fst (step stale_handle (PanelClosedUnobserved 0))"


definition error_chunk :: jsstring where
  "error_chunk = js ''ERROR:    first'' @ [10] @ js ''Warning: second''"

definition two_line_chunk :: jsstring where
  "two_line_chunk = js ''INFO:     Started server process'' @ [10] @ js ''ERROR:    boom''"

definition base0 :: jsstring where
  "base0 = js ''https://file.vscode-cdn.net/ext/webview-ui/dist''"

definition doc_double_quoted :: jsstring where
  \<open>doc_double_quoted =
     js ''<script src="./assets/x.js"></script><link href="./assets/a.css">''\<close>

definition doc_single_quoted :: jsstring where
  \<open>doc_single_quoted = js ''<script src='./assets/x.js'></script>''\<close>


section \<open>Properties of the Chat Relay\<close>

lemma dropWhile_all: "(\<forall>x \<in> set (dropWhile P s). P x) \<longleftrightarrow> (\<forall>x \<in> set s. P x)"
  by (induction s) auto

lemma trim_empty_iff: "trim s = [] \<longleftrightarrow> (\<forall>c \<in> set s. is_js_whitespace c)"
  by (simp add: trim_def dropWhile_eq_Nil_conv dropWhile_all)

text \<open>
  Claim C5. A send is accepted exactly when the input is non-empty after trimming and no
  request is outstanding. An accepted send appends the user entry, raises the flag and
  issues one request; a rejected send issues no request and leaves the whole state, in
  particular the conversation and the flag, as it was. While the flag is raised every
  further send is rejected, whatever has been typed meanwhile.
\<close>

theorem handleSend_accepts_iff:
  "(snd (handleSend s) \<noteq> [] \<longleftrightarrow> trim (input s) \<noteq> [] \<and> \<not> isLoading s) \<and>
   (trim (input s) \<noteq> [] \<and> \<not> isLoading s \<longrightarrow>
      handleSend s =
        (s\<lparr>input := [], messages := messages s @ [user_entry (input s)], isLoading := True\<rparr>,
         [agent_request (input s)])) \<and>
   (\<not> (trim (input s) \<noteq> [] \<and> \<not> isLoading s) \<longrightarrow> handleSend s = (s, [])) \<and>
   (trim (input s) \<noteq> [] \<and> \<not> isLoading s \<longrightarrow>
      handleSend (fst (handleSend s)\<lparr>input := typed\<rparr>) =
        (fst (handleSend s)\<lparr>input := typed\<rparr>, []))"
  by (simp add: handleSend_def Let_def)

theorem handleSend_accepts_iff_witness:
  "trim (input (relay_init\<lparr>input := js ''  hi ''\<rparr>)) \<noteq> [] \<and>
   \<not> isLoading (relay_init\<lparr>input := js ''  hi ''\<rparr>) \<and>
   snd (handleSend (relay_init\<lparr>input := js ''  hi ''\<rparr>)) \<noteq> [] \<and>
   handleSend (relay_init\<lparr>input := js ''  hi ''\<rparr>) =
     (relay_init\<lparr>input := [], messages := [greeting_entry, user_entry (js ''  hi '')],
        isLoading := True\<rparr>, [agent_request (js ''  hi '')]) \<and>
   handleSend (fst (handleSend (relay_init\<lparr>input := js ''  hi ''\<rparr>))\<lparr>input := js ''again''\<rparr>) =
     (fst (handleSend (relay_init\<lparr>input := js ''  hi ''\<rparr>))\<lparr>input := js ''again''\<rparr>, [])"
proof -
  have a: "trim (input (relay_init\<lparr>input := js ''  hi ''\<rparr>)) \<noteq> []"
    by (simp add: trim_empty_iff js_def is_js_whitespace_def)
  have b: "\<not> isLoading (relay_init\<lparr>input := js ''  hi ''\<rparr>)"
    by (simp add: relay_init_def)
  note t = handleSend_accepts_iff [of "relay_init\<lparr>input := js ''  hi ''\<rparr>" "js ''again''"]
  from t a b have 1: "snd (handleSend (relay_init\<lparr>input := js ''  hi ''\<rparr>)) \<noteq> []" by blast
  from t a b have 2: "handleSend (relay_init\<lparr>input := js ''  hi ''\<rparr>) =
        ((relay_init\<lparr>input := js ''  hi ''\<rparr>)\<lparr>input := [], messages := messages (relay_init\<lparr>input := js ''  hi ''\<rparr>) @ [user_entry (input (relay_init\<lparr>input := js ''  hi ''\<rparr>))], isLoading := True\<rparr>,
         [agent_request (input (relay_init\<lparr>input := js ''  hi ''\<rparr>))])" by blast
  from t a b have 3: "handleSend (fst (handleSend (relay_init\<lparr>input := js ''  hi ''\<rparr>))\<lparr>input := js ''again''\<rparr>) =
     (fst (handleSend (relay_init\<lparr>input := js ''  hi ''\<rparr>))\<lparr>input := js ''again''\<rparr>, [])" by blast
  have two: "handleSend (relay_init\<lparr>input := js ''  hi ''\<rparr>) =
     (relay_init\<lparr>input := [], messages := [greeting_entry, user_entry (js ''  hi '')],
        isLoading := True\<rparr>, [agent_request (js ''  hi '')])"
    unfolding 2 by (simp add: relay_init_def)
  show ?thesis using a b 1 two 3 by blast
qed


lemma resume_failure:
  "outcome = FetchRejected \<or> outcome = JsonRejected \<Longrightarrow>
   handleSend_resume outcome s =
     Inr (s\<lparr>messages := messages s @ [generic_error_entry], isLoading := False\<rparr>)"
  by (auto simp: handleSend_resume_def try_block_def catch_block_def)

text \<open>
  Claim C6. When \<open>fetch\<close> or \<open>res.json()\<close> rejects, \<open>handleSend\<close> returns
  normally (\<open>Inr\<close>), exactly the fixed generic error entry has been appended, and the flag
  is down. Started from an accepted send, the conversation ends with the user entry
  followed by the error entry. Afterwards any input that is non-empty after trimming is
  accepted again.
\<close>

theorem relay_failure_degrades:
  assumes "outcome = FetchRejected \<or> outcome = JsonRejected"
  shows "handleSend_resume outcome s =
           Inr (s\<lparr>messages := messages s @ [generic_error_entry], isLoading := False\<rparr>) \<and>
         (trim (input s0) \<noteq> [] \<and> \<not> isLoading s0 \<longrightarrow>
            handleSend_resume outcome (fst (handleSend s0)) =
              Inr (s0\<lparr>input := [],
                     messages := messages s0 @ [user_entry (input s0), generic_error_entry],
                     isLoading := False\<rparr>)) \<and>
         (trim typed \<noteq> [] \<longrightarrow>
            handleSend (s\<lparr>messages := messages s @ [generic_error_entry], isLoading := False,
                          input := typed\<rparr>) =
              (s\<lparr>messages := messages s @ [generic_error_entry, user_entry typed],
                  isLoading := True, input := []\<rparr>,
               [agent_request typed]))"
  using assms by (auto simp: resume_failure handleSend_def Let_def)

lemma sent_hi_eq:
  "sent_hi = \<lparr>input = [], messages = [greeting_entry, user_entry (js ''hi'')],
              isLoading = True, render_fault = None\<rparr>"
  by (simp add: sent_hi_def handleSend_def Let_def relay_init_def trim_empty_iff js_def
      is_js_whitespace_def)

theorem relay_failure_degrades_witness:
  "handleSend_resume FetchRejected sent_hi =
     Inr \<lparr>input = [], messages = [greeting_entry, user_entry (js ''hi''), generic_error_entry],
          isLoading = False, render_fault = None\<rparr> \<and>
   handleSend_resume FetchRejected (fst (handleSend (relay_init\<lparr>input := js ''hi''\<rparr>))) =
     Inr \<lparr>input = [], messages = [greeting_entry, user_entry (js ''hi''), generic_error_entry],
          isLoading = False, render_fault = None\<rparr> \<and>
   snd (handleSend
     \<lparr>input = js ''retry'',
      messages = [greeting_entry, user_entry (js ''hi''), generic_error_entry],
      isLoading = False, render_fault = None\<rparr>) = [agent_request (js ''retry'')]"
proof -
  have h: "FetchRejected = FetchRejected \<or> FetchRejected = JsonRejected" by simp
  have a: "trim (input (relay_init\<lparr>input := js ''hi''\<rparr>)) \<noteq> []"
    by (simp add: trim_empty_iff js_def is_js_whitespace_def)
  have b: "\<not> isLoading (relay_init\<lparr>input := js ''hi''\<rparr>)"
    by (simp add: relay_init_def)
  have c: "trim (js ''retry'') \<noteq> []"
    by (simp add: trim_empty_iff js_def is_js_whitespace_def)
  note t = relay_failure_degrades [OF h, of sent_hi
      "relay_init\<lparr>input := js ''hi''\<rparr>" "js ''retry''"]
  from t have 1: "handleSend_resume FetchRejected sent_hi =
     Inr \<lparr>input = [], messages = [greeting_entry, user_entry (js ''hi''), generic_error_entry],
          isLoading = False, render_fault = None\<rparr>"
    by (simp add: sent_hi_eq)
  from t a b have 2: "handleSend_resume FetchRejected (fst (handleSend (relay_init\<lparr>input := js ''hi''\<rparr>))) =
     Inr \<lparr>input = [], messages = [greeting_entry, user_entry (js ''hi''), generic_error_entry],
          isLoading = False, render_fault = None\<rparr>"
    by (simp add: relay_init_def)
  from t c have 3: "snd (handleSend
     \<lparr>input = js ''retry'',
      messages = [greeting_entry, user_entry (js ''hi''), generic_error_entry],
      isLoading = False, render_fault = None\<rparr>) = [agent_request (js ''retry'')]"
    by (simp add: sent_hi_eq)
  from 1 2 3 show ?thesis by blast
qed

text \<open>
  The scenario of the specification: the reply of the backend is appended after the user
  entry and the conversation renders.
\<close>

lemma folders_reply_appended:
  "map_sum id (after_render str_gt0) (handleSend_resume (Parsed folders_reply) sent_hi) =
     Inr \<lparr>input = [],
          messages = [greeting_entry, user_entry (js ''hi''),
            \<lparr>role = Bot, msg_text = Some (JStr (js ''3 empty folders found'')),
             results = Some (JArr [JObj [(js ''name'', JStr (js ''tmp'')),
                                         (js ''path'', JStr (js ''/tmp''))]])\<rparr>],
          isLoading = False, render_fault = None\<rparr>"
  by (simp add: handleSend_resume_def try_block_def setMessages_def bot_entry_def
      folders_reply_def sent_hi_eq after_render_def render_messages_def
      results_children_def greeting_entry_def user_entry_def js_def)

lemma resume_null:
  "handleSend_resume (Parsed JNull) s = Inr (s\<lparr>render_fault := Some TypeError, isLoading := False\<rparr>)"
  by (simp add: handleSend_resume_def try_block_def setMessages_def bot_entry_def)

text \<open>
  Claim C10 does not hold of the code. The body \<open>null\<close> parses as JSON. Reading
  \<open>data.message\<close> on it throws inside the updater given to \<open>setMessages\<close>, which React
  runs when it renders: the \<open>catch\<close> block is not entered, \<open>handleSend\<close> returns
  normally with the flag down, no entry at all is appended to the conversation, and the
  render fails with the TypeError. A body whose \<open>results\<close> is a non-empty string is
  appended as an entry, and the render of that entry fails as well.
\<close>

theorem null_body_escapes_catch:
  "try_block (Parsed JNull) sent_hi = Inr (sent_hi\<lparr>render_fault := Some TypeError\<rparr>) \<and>
   handleSend_resume (Parsed JNull) sent_hi =
     Inr \<lparr>input = [], messages = [greeting_entry, user_entry (js ''hi'')],
          isLoading = False, render_fault = Some TypeError\<rparr> \<and>
   render_messages str_gt0 (messages sent_hi) = None \<and>
   map_sum id (after_render str_gt0) (handleSend_resume (Parsed results_is_text) sent_hi) =
     Inr \<lparr>input = [],
          messages = [greeting_entry, user_entry (js ''hi''),
            \<lparr>role = Bot, msg_text = Some (JStr (js ''m'')), results = Some (JStr (js ''abc''))\<rparr>],
          isLoading = False, render_fault = Some TypeError\<rparr>"
proof -
  have m: "messages sent_hi = [greeting_entry, user_entry (js ''hi'')]"
    by (simp add: sent_hi_eq)
  have 1: "try_block (Parsed JNull) sent_hi = Inr (sent_hi\<lparr>render_fault := Some TypeError\<rparr>)"
    by (simp add: try_block_def setMessages_def bot_entry_def)
  have 2: "handleSend_resume (Parsed JNull) sent_hi =
     Inr \<lparr>input = [], messages = [greeting_entry, user_entry (js ''hi'')],
          isLoading = False, render_fault = Some TypeError\<rparr>"
    by (simp add: resume_null sent_hi_eq)
  have 3: "render_messages str_gt0 (messages sent_hi) = None"
    by (simp add: m render_messages_def results_children_def greeting_entry_def
        user_entry_def)
  have 4: "handleSend_resume (Parsed results_is_text) sent_hi =
     Inr \<lparr>input = [],
          messages = [greeting_entry, user_entry (js ''hi''),
            \<lparr>role = Bot, msg_text = Some (JStr (js ''m'')), results = Some (JStr (js ''abc''))\<rparr>],
          isLoading = False, render_fault = None\<rparr>"
    by (simp add: handleSend_resume_def try_block_def setMessages_def bot_entry_def
        results_is_text_def sent_hi_eq js_def)
  have 5: "render_messages str_gt0
     [greeting_entry, user_entry (js ''hi''),
      \<lparr>role = Bot, msg_text = Some (JStr (js ''m'')), results = Some (JStr (js ''abc''))\<rparr>] =
     Some TypeError"
    by (simp add: render_messages_def results_children_def greeting_entry_def
        user_entry_def js_def)
  from 1 2 3 show ?thesis
    by (simp add: 4 5 after_render_def)
qed


section \<open>Properties of the extension host\<close>

lemma fst_run_Cons: "fst (run s (ev # evs)) = fst (run (fst (step s ev)) evs)"
  by (simp add: split_def Let_def)

lemma snd_run_Cons:
  "snd (run s (ev # evs)) = snd (step s ev) @ snd (run (fst (step s ev)) evs)"
  by (simp add: split_def Let_def)

lemma fst_run_append: "fst (run s (xs @ ys)) = fst (run (fst (run s xs)) ys)"
proof (induction xs arbitrary: s)
  case Nil
  show ?case by simp
next
  case (Cons ev xs)
  have "fst (run s ((ev # xs) @ ys)) = fst (run (fst (step s ev)) (xs @ ys))"
    by (simp only: append_Cons fst_run_Cons)
  also have "\<dots> = fst (run (fst (run (fst (step s ev)) xs)) ys)"
    by (rule Cons.IH)
  also have "\<dots> = fst (run (fst (run s (ev # xs))) ys)"
    by (simp only: fst_run_Cons)
  finally show ?case .
qed

lemma valid_trace_append:
  "valid_trace s (xs @ ys) \<longleftrightarrow> valid_trace s xs \<and> valid_trace (fst (run s xs)) ys"
proof (induction xs arbitrary: s)
  case Nil
  show ?case by simp
next
  case (Cons ev xs)
  show ?case
    by (simp only: append_Cons valid_trace.simps Cons.IH fst_run_Cons) blast
qed

lemma fst_on_stderr:
  "fst (on_stderr w message env s) =
     (if js_includes message (js ''Application startup complete'') \<and> \<not> isBackendReady s w
      then fst (createOrShowWebviewPanel env (s\<lparr>isBackendReady := (isBackendReady s)(w := True)\<rparr>))
      else s)"
  by (simp add: on_stderr_def split_def Let_def)

lemma ready_line_marker: "js_includes ready_line (js ''Application startup complete'')"
  by (simp add: ready_line_def js_def)

lemma ready_line_info: "js_includes ready_line (js ''INFO'')"
  by (simp add: ready_line_def js_def)

lemma exeExists_env0: "exeExists env0"
  by (simp add: env0_def)

lemma activeTextEditor_env0: "activeTextEditor env0 = None"
  by (simp add: env0_def)

lemma content_env0: "\<exists>html. getWebviewContent env0 = Inr html"
  by (simp add: getWebviewContent_def env0_def)

lemma content_env_unreadable: "getWebviewContent env_unreadable = Inl IOError"
  by (simp add: getWebviewContent_def env_unreadable_def)

lemma step_start_init:
  "start_command env0 ext_init = (worker_starting, [Spawn 0 (exePath env0)])"
  by (simp add: start_command_def ext_init_def exeExists_env0 Let_def fun_eq_iff
      worker_starting_def)

lemma step_start_init_fst: "fst (step ext_init (StartCommand env0)) = worker_starting"
  by (simp add: step_start_init)

lemma valid_trace_ready: "valid_trace ext_init trace_ready"
  unfolding trace_ready_def
  by (simp only: valid_trace.simps enabled.simps step_start_init_fst)
     (simp add: ext_init_def worker_starting_def)

lemma panel_open_eq:
  "panel_open =
     \<lparr>backendProcess = Some 0, currentPanel = Some 0, isBackendReady = (\<lambda>w. w = 0),
      spawned = 1, running = [0], created = 1, openPanels = [0],
      onDidDispose_registered = [0], deactivated = False\<rparr>"
proof -
  obtain html where h: "getWebviewContent env0 = Inr html"
    using content_env0 by blast
  have "panel_open = fst (step worker_starting (StderrData 0 ready_line env0))"
    unfolding panel_open_def trace_ready_def
    by (simp only: fst_run_Cons step_start_init_fst run.simps(1) fst_conv)
  also have "\<dots> =
     \<lparr>backendProcess = Some 0, currentPanel = Some 0, isBackendReady = (\<lambda>w. w = 0),
      spawned = 1, running = [0], created = 1, openPanels = [0],
      onDidDispose_registered = [0], deactivated = False\<rparr>"
    by (simp add: fst_on_stderr ready_line_marker createOrShowWebviewPanel_def Let_def h
        fun_eq_iff worker_starting_def)
  finally show ?thesis .
qed

text \<open>
  Claim C1 does not hold of the code. On a fresh session whose backend binary exists,
  two start commands in a row are a trace the platform can deliver; the first spawns
  worker 0 and the second, finding a worker handle and no panel, creates panel 0 at
  once and sets its content. No output of the worker has been seen and its readiness
  flag is still down.
\<close>

theorem start_creates_panel_before_readiness:
  "valid_trace ext_init [StartCommand env0, StartCommand env0] \<and>
   (\<exists>html. getWebviewContent env0 = Inr html \<and>
      snd (run ext_init [StartCommand env0, StartCommand env0]) =
        [Spawn 0 (exePath env0),
         CreateWebviewPanel 0 (js ''lumiPanel'') (js ''Lumi Assistant'') ViewColumn_One,
         SetHtml 0 html]) \<and>
   \<not> isBackendReady (fst (run ext_init [StartCommand env0, StartCommand env0])) 0"
proof -
  obtain html where h: "getWebviewContent env0 = Inr html"
    using content_env0 by blast
  have 1: "step ext_init (StartCommand env0) = (worker_starting, [Spawn 0 (exePath env0)])"
    by (simp add: step_start_init)
  have 2: "step worker_starting (StartCommand env0) =
     (worker_starting\<lparr>currentPanel := Some 0, created := 1, openPanels := [0],
        onDidDispose_registered := [0]\<rparr>,
      [CreateWebviewPanel 0 (js ''lumiPanel'') (js ''Lumi Assistant'') ViewColumn_One,
       SetHtml 0 html])"
    by (simp add: start_command_def createOrShowWebviewPanel_def Let_def column_or_One_def
        activeTextEditor_env0 worker_starting_def h)
  have 3: "\<not> deactivated ext_init" "\<not> deactivated worker_starting"
    "\<not> isBackendReady worker_starting 0"
    by (simp_all add: ext_init_def worker_starting_def)
  have v: "valid_trace ext_init [StartCommand env0, StartCommand env0]"
    using 3 by (simp only: valid_trace.simps enabled.simps 1 2 fst_conv) simp
  have e: "snd (run ext_init [StartCommand env0, StartCommand env0]) =
     [Spawn 0 (exePath env0),
      CreateWebviewPanel 0 (js ''lumiPanel'') (js ''Lumi Assistant'') ViewColumn_One,
      SetHtml 0 html]"
    by (simp only: snd_run_Cons fst_run_Cons 1 2 fst_conv snd_conv run.simps(1)) simp
  have r: "\<not> isBackendReady (fst (run ext_init [StartCommand env0, StartCommand env0])) 0"
    using 3 by (simp only: fst_run_Cons 1 2 fst_conv run.simps(1)) simp
  from v h e r show ?thesis by blast
qed

lemma step_read_fails:
  "step worker_starting (StderrData 0 ready_line env_unreadable) =
     (\<lparr>backendProcess = Some 0, currentPanel = Some 0, isBackendReady = (\<lambda>w. w = 0),
       spawned = 1, running = [0], created = 1, openPanels = [0],
       onDidDispose_registered = [], deactivated = False\<rparr>,
      [ConsoleLog (js ''Lumi Backend: '' @ ready_line),
       CreateWebviewPanel 0 (js ''lumiPanel'') (js ''Lumi Assistant'') ViewColumn_One,
       Uncaught IOError])"
proof -
  have a: "activeTextEditor env_unreadable = None"
    by (simp add: env_unreadable_def env0_def)
  show ?thesis
    by (simp add: on_stderr_def ready_line_marker createOrShowWebviewPanel_def Let_def
        content_env_unreadable a column_or_One_def is_Uncaught_def fun_eq_iff
        worker_starting_def)
qed

lemma stale_handle_eq:
  "stale_handle =
     \<lparr>backendProcess = Some 0, currentPanel = Some 0, isBackendReady = (\<lambda>w. w = 0),
      spawned = 1, running = [0], created = 1, openPanels = [0],
      onDidDispose_registered = [], deactivated = False\<rparr>"
  unfolding stale_handle_def trace_read_fails_def
  by (simp only: fst_run_Cons step_start_init_fst step_read_fails run.simps(1) fst_conv)

lemma valid_trace_read_fails: "valid_trace ext_init trace_read_fails"
  unfolding trace_read_fails_def
  by (simp only: valid_trace.simps enabled.simps step_start_init_fst)
     (simp add: ext_init_def worker_starting_def)

lemma effects_read_fails:
  "snd (run ext_init trace_read_fails) =
     [Spawn 0 (exePath env0),
      ConsoleLog (js ''Lumi Backend: '' @ ready_line),
      CreateWebviewPanel 0 (js ''lumiPanel'') (js ''Lumi Assistant'') ViewColumn_One,
      Uncaught IOError]"
proof -
  have 1: "step ext_init (StartCommand env0) = (worker_starting, [Spawn 0 (exePath env0)])"
    by (simp add: step_start_init)
  show ?thesis
    unfolding trace_read_fails_def
    by (simp only: snd_run_Cons fst_run_Cons 1 step_read_fails fst_conv snd_conv run.simps(1))
       simp
qed

lemma stale_handle_closed_eq:
  "stale_handle_closed =
     \<lparr>backendProcess = Some 0, currentPanel = Some 0, isBackendReady = (\<lambda>w. w = 0),
      spawned = 1, running = [0], created = 1, openPanels = [],
      onDidDispose_registered = [], deactivated = False\<rparr>"
  by (simp add: stale_handle_closed_def stale_handle_eq)

text \<open>
  Claim C2 does not hold of the code. The worker is spawned and reports readiness while
  \<open>index.html\<close> exists but cannot be read: panel 0 is created and assigned to
  \<open>currentPanel\<close>, \<open>getWebviewContent\<close> throws, and the \<open>onDidDispose\<close> callback is never
  registered. The user closes that panel. The worker is running and ready, and the
  start command is invoked twice: nothing is spawned and nothing is created, but each
  invocation calls \<open>reveal\<close> on the handle of the panel that is gone, and no panel is
  open before, between or after the two.
\<close>

theorem start_twice_reveals_disposed_panel:
  "valid_trace ext_init
     (trace_read_fails @ [PanelClosedUnobserved 0, StartCommand env0, StartCommand env0]) \<and>
   snd (run ext_init trace_read_fails) =
     [Spawn 0 (exePath env0),
      ConsoleLog (js ''Lumi Backend: '' @ ready_line),
      CreateWebviewPanel 0 (js ''lumiPanel'') (js ''Lumi Assistant'') ViewColumn_One,
      Uncaught IOError] \<and>
   stale_handle_closed = fst (run ext_init (trace_read_fails @ [PanelClosedUnobserved 0])) \<and>
   backendProcess stale_handle_closed = Some 0 \<and>
   isBackendReady stale_handle_closed 0 \<and>
   running stale_handle_closed = [0] \<and>
   currentPanel stale_handle_closed = Some 0 \<and>
   openPanels stale_handle_closed = [] \<and>
   step stale_handle_closed (StartCommand env0) =
     (stale_handle_closed, [Reveal 0 (Some ViewColumn_One)]) \<and>
   snd (run stale_handle_closed [StartCommand env0, StartCommand env0]) =
     [Reveal 0 (Some ViewColumn_One), Reveal 0 (Some ViewColumn_One)] \<and>
   openPanels (fst (run stale_handle_closed [StartCommand env0, StartCommand env0])) = []"
proof -
  have c: "stale_handle_closed =
      fst (run ext_init (trace_read_fails @ [PanelClosedUnobserved 0]))"
    by (simp only: fst_run_append fst_run_Cons run.simps(1) fst_conv stale_handle_closed_def
        stale_handle_def)
  have s: "step stale_handle_closed (StartCommand env0) =
     (stale_handle_closed, [Reveal 0 (Some ViewColumn_One)])"
    by (simp add: start_command_def stale_handle_closed_eq)
  have e1: "enabled stale_handle (PanelClosedUnobserved 0)"
    by (simp add: stale_handle_eq)
  have e2: "enabled stale_handle_closed (StartCommand env0)"
    by (simp add: stale_handle_closed_eq)
  have v: "valid_trace ext_init
     (trace_read_fails @ [PanelClosedUnobserved 0, StartCommand env0, StartCommand env0])"
    using valid_trace_read_fails e1 e2
    by (simp only: valid_trace_append valid_trace.simps stale_handle_def [symmetric]
        stale_handle_closed_def [symmetric] s fst_conv)
  have r: "snd (run stale_handle_closed [StartCommand env0, StartCommand env0]) =
     [Reveal 0 (Some ViewColumn_One), Reveal 0 (Some ViewColumn_One)]"
    by (simp only: snd_run_Cons fst_run_Cons s fst_conv snd_conv run.simps(1)) simp
  have o: "openPanels (fst (run stale_handle_closed [StartCommand env0, StartCommand env0])) = []"
    by (simp only: fst_run_Cons s fst_conv run.simps(1)) (simp add: stale_handle_closed_eq)
  have f: "backendProcess stale_handle_closed = Some 0"
    "isBackendReady stale_handle_closed 0"
    "running stale_handle_closed = [0]"
    "currentPanel stale_handle_closed = Some 0"
    "openPanels stale_handle_closed = []"
    by (simp_all add: stale_handle_closed_eq)
  from v effects_read_fails c f s r o show ?thesis by blast
qed

lemma createOrShow_effects:
  "ShowErrorMessage m \<notin> set (snd (createOrShowWebviewPanel env s)) \<and>
   Kill x \<notin> set (snd (createOrShowWebviewPanel env s))"
  by (auto simp: createOrShowWebviewPanel_def Let_def split: option.splits sum.splits)

lemma snd_on_stderr_uncaught:
  "list_ex is_Uncaught (snd (on_stderr w message env s)) \<longleftrightarrow>
     js_includes message (js ''Application startup complete'') \<and> \<not> isBackendReady s w \<and>
     list_ex is_Uncaught
       (snd (createOrShowWebviewPanel env (s\<lparr>isBackendReady := (isBackendReady s)(w := True)\<rparr>)))"
  by (simp add: on_stderr_def split_def Let_def is_Uncaught_def)

lemma snd_on_stderr_show:
  "ShowErrorMessage m \<in> set (snd (on_stderr w message env s)) \<longleftrightarrow>
     m = js ''Lumi Backend Error: '' @ message \<and>
     (js_includes message (js ''ERROR'') \<or> js_includes message (js ''Warning'')) \<and>
     \<not> js_includes message (js ''INFO'') \<and>
     \<not> list_ex is_Uncaught (snd (on_stderr w message env s))"
  unfolding snd_on_stderr_uncaught
  using createOrShow_effects [of m env "s\<lparr>isBackendReady := (isBackendReady s)(w := True)\<rparr>"]
  by (auto simp: on_stderr_def split_def Let_def)

lemma snd_on_stderr_kill: "Kill x \<notin> set (snd (on_stderr w message env s))"
  using createOrShow_effects [of _ env "s\<lparr>isBackendReady := (isBackendReady s)(w := True)\<rparr>" x]
  by (auto simp: on_stderr_def split_def Let_def)

lemma createOrShow_frame:
  "backendProcess (fst (createOrShowWebviewPanel env s)) = backendProcess s \<and>
   running (fst (createOrShowWebviewPanel env s)) = running s \<and>
   isBackendReady (fst (createOrShowWebviewPanel env s)) = isBackendReady s"
  by (auto simp: createOrShowWebviewPanel_def Let_def split: option.splits sum.splits)

text \<open>
  Claim C7, amended. The listener judges the whole chunk of one \<open>data\<close> event, which may
  hold several lines. When the listener is not ended by an exception of the panel
  creation, it shows an error notification exactly when the chunk contains \<open>ERROR\<close> or
  \<open>Warning\<close> and does not contain \<open>INFO\<close>, and the notification carries the whole
  chunk. In every case the listener kills no worker and leaves the worker handle alone,
  and the readiness flag of the worker becomes what the readiness marker alone makes it.
\<close>

theorem stderr_chunk_surfaced_iff:
  "(\<not> list_ex is_Uncaught (snd (on_stderr w message env s)) \<longrightarrow>
      ((\<exists>m. ShowErrorMessage m \<in> set (snd (on_stderr w message env s))) \<longleftrightarrow>
         (js_includes message (js ''ERROR'') \<or> js_includes message (js ''Warning'')) \<and>
         \<not> js_includes message (js ''INFO'')) \<and>
      (ShowErrorMessage (js ''Lumi Backend Error: '' @ message)
         \<in> set (snd (on_stderr w message env s)) \<longleftrightarrow>
         (js_includes message (js ''ERROR'') \<or> js_includes message (js ''Warning'')) \<and>
         \<not> js_includes message (js ''INFO''))) \<and>
   (\<forall>m. ShowErrorMessage m \<in> set (snd (on_stderr w message env s)) \<longrightarrow>
      m = js ''Lumi Backend Error: '' @ message) \<and>
   (\<forall>x. Kill x \<notin> set (snd (on_stderr w message env s))) \<and>
   backendProcess (fst (on_stderr w message env s)) = backendProcess s \<and>
   running (fst (on_stderr w message env s)) = running s \<and>
   isBackendReady (fst (on_stderr w message env s)) =
     (isBackendReady s)
       (w := isBackendReady s w \<or> js_includes message (js ''Application startup complete''))"
proof -
  have r: "isBackendReady (fst (on_stderr w message env s)) =
     (isBackendReady s)
       (w := isBackendReady s w \<or> js_includes message (js ''Application startup complete''))"
    by (auto simp: fst_on_stderr createOrShow_frame fun_eq_iff)
  have b: "backendProcess (fst (on_stderr w message env s)) = backendProcess s"
    "running (fst (on_stderr w message env s)) = running s"
    by (simp_all add: fst_on_stderr createOrShow_frame)
  have k: "\<forall>x. Kill x \<notin> set (snd (on_stderr w message env s))"
    by (simp add: snd_on_stderr_kill)
  have m: "\<forall>m. ShowErrorMessage m \<in> set (snd (on_stderr w message env s)) \<longrightarrow>
      m = js ''Lumi Backend Error: '' @ message"
    using snd_on_stderr_show by blast
  have i: "((\<exists>m. ShowErrorMessage m \<in> set (snd (on_stderr w message env s))) \<longleftrightarrow>
         (js_includes message (js ''ERROR'') \<or> js_includes message (js ''Warning'')) \<and>
         \<not> js_includes message (js ''INFO'')) \<and>
      (ShowErrorMessage (js ''Lumi Backend Error: '' @ message)
         \<in> set (snd (on_stderr w message env s)) \<longleftrightarrow>
         (js_includes message (js ''ERROR'') \<or> js_includes message (js ''Warning'')) \<and>
         \<not> js_includes message (js ''INFO''))"
    if "\<not> list_ex is_Uncaught (snd (on_stderr w message env s))"
    using that snd_on_stderr_show [of _ w message env s] by blast
  from r b k m i show ?thesis by blast
qed

theorem stderr_chunk_surfaced_iff_witness:
  "\<not> list_ex is_Uncaught (snd (on_stderr 0 error_chunk env0 panel_open)) \<and>
   \<not> list_ex is_Uncaught (snd (on_stderr 0 ready_line env0 panel_open)) \<and>
   ShowErrorMessage (js ''Lumi Backend Error: '' @ error_chunk)
     \<in> set (snd (on_stderr 0 error_chunk env0 panel_open)) \<and>
   ShowErrorMessage (js ''Lumi Backend Error: '' @ ready_line)
     \<notin> set (snd (on_stderr 0 ready_line env0 panel_open)) \<and>
   backendProcess (fst (on_stderr 0 error_chunk env0 panel_open)) = Some 0 \<and>
   isBackendReady (fst (on_stderr 0 error_chunk env0 worker_starting)) 0 = False"
proof -
  have e: "js_includes error_chunk (js ''ERROR'')" "\<not> js_includes error_chunk (js ''INFO'')"
    "\<not> js_includes error_chunk (js ''Application startup complete'')"
    by (simp_all add: error_chunk_def js_def)
  have u1: "\<not> list_ex is_Uncaught (snd (on_stderr 0 error_chunk env0 panel_open))"
    using e by (simp add: snd_on_stderr_uncaught)
  have u2: "\<not> list_ex is_Uncaught (snd (on_stderr 0 ready_line env0 panel_open))"
    by (simp add: snd_on_stderr_uncaught panel_open_eq)
  from e u1 stderr_chunk_surfaced_iff [of 0 error_chunk env0 panel_open]
  have 1: "ShowErrorMessage (js ''Lumi Backend Error: '' @ error_chunk)
     \<in> set (snd (on_stderr 0 error_chunk env0 panel_open))"
    and 3: "backendProcess (fst (on_stderr 0 error_chunk env0 panel_open)) = Some 0"
    by (simp_all add: panel_open_eq)
  from ready_line_info u2 stderr_chunk_surfaced_iff [of 0 ready_line env0 panel_open]
  have 2: "ShowErrorMessage (js ''Lumi Backend Error: '' @ ready_line)
     \<notin> set (snd (on_stderr 0 ready_line env0 panel_open))"
    by simp
  from e stderr_chunk_surfaced_iff [of 0 error_chunk env0 worker_starting]
  have 4: "isBackendReady (fst (on_stderr 0 error_chunk env0 worker_starting)) 0 = False"
    by (simp add: worker_starting_def)
  from u1 u2 1 2 3 4 show ?thesis by blast
qed

text \<open>
  The claim C7 as stated fails: it speaks of each output line. In a chunk of two lines,
  the second line contains \<open>ERROR\<close> and does not contain \<open>INFO\<close>, yet nothing is
  surfaced, because the first line of the same chunk contains \<open>INFO\<close>.
\<close>

theorem error_line_in_info_chunk_counterexample:
  "two_line_chunk = js ''INFO:     Started server process'' @ [10] @ js ''ERROR:    boom'' \<and>
   js_includes (js ''ERROR:    boom'') (js ''ERROR'') \<and>
   \<not> js_includes (js ''ERROR:    boom'') (js ''INFO'') \<and>
   snd (on_stderr 0 two_line_chunk env0 panel_open) =
     [ConsoleLog (js ''Lumi Backend: '' @ two_line_chunk)]"
proof -
  have a: "js_includes (js ''ERROR:    boom'') (js ''ERROR'')"
    "\<not> js_includes (js ''ERROR:    boom'') (js ''INFO'')"
    by (simp_all add: js_def)
  have b: "js_includes two_line_chunk (js ''INFO'')"
    "\<not> js_includes two_line_chunk (js ''Application startup complete'')"
    by (simp_all add: two_line_chunk_def js_def)
  have c: "snd (on_stderr 0 two_line_chunk env0 panel_open) =
     [ConsoleLog (js ''Lumi Backend: '' @ two_line_chunk)]"
    using b by (simp add: on_stderr_def)
  from a c show ?thesis by (simp add: two_line_chunk_def)
qed

text \<open>
  Claim C3 does not hold of the code. The worker is spawned and reports readiness while
  \<open>index.html\<close> exists but cannot be read: panel 0 is created and assigned to
  \<open>currentPanel\<close>, \<open>getWebviewContent\<close> throws, and the \<open>onDidDispose\<close> callback is never
  registered. Then the worker exits. The exit listener clears the worker handle and
  disposes the panel, but no callback clears \<open>currentPanel\<close>: after the listener has run
  the panel handle is still set, to a panel that is no longer open.
\<close>

theorem worker_exit_leaves_panel_handle:
  "valid_trace ext_init (trace_read_fails @ [ProcessExit 0 (Some 1) None]) \<and>
   snd (run ext_init trace_read_fails) =
     [Spawn 0 (exePath env0),
      ConsoleLog (js ''Lumi Backend: '' @ ready_line),
      CreateWebviewPanel 0 (js ''lumiPanel'') (js ''Lumi Assistant'') ViewColumn_One,
      Uncaught IOError] \<and>
   stale_handle = fst (run ext_init trace_read_fails) \<and>
   currentPanel stale_handle = Some 0 \<and>
   openPanels stale_handle = [0] \<and>
   snd (step stale_handle (ProcessExit 0 (Some 1) None)) =
     [ConsoleLogExit (Some 1) None, DisposePanel 0] \<and>
   backendProcess (fst (step stale_handle (ProcessExit 0 (Some 1) None))) = None \<and>
   openPanels (fst (step stale_handle (ProcessExit 0 (Some 1) None))) = [] \<and>
   currentPanel (fst (step stale_handle (ProcessExit 0 (Some 1) None))) = Some 0"
proof -
  have e: "enabled stale_handle (ProcessExit 0 (Some 1) None)"
    by (simp add: stale_handle_eq)
  have v: "valid_trace ext_init (trace_read_fails @ [ProcessExit 0 (Some 1) None])"
    using valid_trace_read_fails e
    by (simp only: valid_trace_append valid_trace.simps stale_handle_def [symmetric])
  have x: "step stale_handle (ProcessExit 0 (Some 1) None) =
     (\<lparr>backendProcess = None, currentPanel = Some 0, isBackendReady = (\<lambda>w. w = 0),
       spawned = 1, running = [], created = 1, openPanels = [],
       onDidDispose_registered = [], deactivated = False\<rparr>,
      [ConsoleLogExit (Some 1) None, DisposePanel 0])"
    by (simp add: on_exit_def dispose_panel_def Let_def stale_handle_eq)
  have d: "stale_handle = fst (run ext_init trace_read_fails)"
    by (simp add: stale_handle_def)
  have f: "currentPanel stale_handle = Some 0" "openPanels stale_handle = [0]"
    by (simp_all add: stale_handle_eq)
  have y: "snd (step stale_handle (ProcessExit 0 (Some 1) None)) =
      [ConsoleLogExit (Some 1) None, DisposePanel 0]"
    "backendProcess (fst (step stale_handle (ProcessExit 0 (Some 1) None))) = None"
    "openPanels (fst (step stale_handle (ProcessExit 0 (Some 1) None))) = []"
    "currentPanel (fst (step stale_handle (ProcessExit 0 (Some 1) None))) = Some 0"
    by (simp_all only: x fst_conv snd_conv) simp_all
  from v effects_read_fails d f y show ?thesis by blast
qed

text \<open>
  Claim C4. When the user closes a panel, the disposal callback clears the panel handle
  and nothing else: no call is made (in particular no kill), and the worker handle, the
  running workers and the readiness flags are what they were.
\<close>

theorem panel_close_keeps_worker:
  "step s (PanelClosed p) =
     (s\<lparr>currentPanel := None, openPanels := removeAll p (openPanels s)\<rparr>, []) \<and>
   onDidDispose_callback s = s\<lparr>currentPanel := None\<rparr> \<and>
   currentPanel (fst (step s (PanelClosed p))) = None \<and>
   backendProcess (fst (step s (PanelClosed p))) = backendProcess s \<and>
   running (fst (step s (PanelClosed p))) = running s \<and>
   isBackendReady (fst (step s (PanelClosed p))) = isBackendReady s"
  by (simp add: onDidDispose_callback_def)





section \<open>Properties of the Content Renderer\<close>

lemma get_substitution_Cons_plain:
  "c \<noteq> 36 \<Longrightarrow> get_substitution m p f caps (c # t) = c # get_substitution m p f caps t"
  by (cases t) simp_all

lemma get_substitution_plain:
  "36 \<notin> set xs \<Longrightarrow>
   get_substitution m p f caps (xs @ t) = xs @ get_substitution m p f caps t"
  by (induction xs) (simp_all add: get_substitution_Cons_plain)

lemma expand_asset_template:
  assumes "36 \<notin> set base"
  shows \<open>get_substitution m p f [attr, name] (asset_template base) =
           attr @ js ''="'' @ base @ js ''/assets/'' @ name @ js ''"''\<close>
proof -
  have 1: "get_substitution m p f [attr, name] [36, 50, 34] = name @ [34]"
    by (simp add: is_digit_def)
  have ns: "36 \<notin> set ([61, 34] @ base @ [47, 97, 115, 115, 101, 116, 115, 47])"
    using assms by simp
  have 2: "get_substitution m p f [attr, name]
             (([61, 34] @ base @ [47, 97, 115, 115, 101, 116, 115, 47]) @ [36, 50, 34]) =
           ([61, 34] @ base @ [47, 97, 115, 115, 101, 116, 115, 47]) @ name @ [34]"
    by (simp only: get_substitution_plain [OF ns] 1)
  have 3: "get_substitution m p f [attr, name] (36 # 49 # 61 # t) =
           attr @ get_substitution m p f [attr, name] (61 # t)" for t
    by (simp add: is_digit_def)
  have t: "asset_template base =
      36 # 49 # 61 # ([34] @ base @ [47, 97, 115, 115, 101, 116, 115, 47] @ [36, 50, 34])"
    by (simp add: asset_template_def js_def)
  have 4: "get_substitution m p f [attr, name]
             (61 # ([34] @ base @ [47, 97, 115, 115, 101, 116, 115, 47] @ [36, 50, 34])) =
           [61, 34] @ base @ [47, 97, 115, 115, 101, 116, 115, 47] @ name @ [34]"
    using 2 by simp
  have r: \<open>attr @ js ''="'' @ base @ js ''/assets/'' @ name @ js ''"'' =
           attr @ [61, 34] @ base @ [47, 97, 115, 115, 101, 116, 115, 47] @ name @ [34]\<close>
    by (simp add: js_def)
  show ?thesis
    by (simp only: t 3 4 r)
qed


lemma strip_prefix_Some_iff: "strip_prefix p s = Some r \<longleftrightarrow> s = p @ r"
  by (induction p s rule: strip_prefix.induct) auto

lemma lazy_until_quote_name:
  "list_all (\<lambda>c. c \<noteq> 34 \<and> \<not> is_line_terminator c) name \<Longrightarrow>
   lazy_until_quote (name @ 34 # rest) = Some (name, rest)"
  by (induction name) simp_all

lemma strip_prefix_append: "strip_prefix p (p @ s) = Some s"
  by (simp add: strip_prefix_Some_iff)

lemma match_asset_ref_at:
  assumes "attr = js ''src'' \<or> attr = js ''href''"
    and "list_all (\<lambda>c. c \<noteq> 34 \<and> \<not> is_line_terminator c) name"
  shows \<open>match_asset_ref (attr @ js ''="./assets/'' @ name @ js ''"'' @ rest) =
           Some (attr, name, rest)\<close>
proof -
  have q: \<open>js ''"'' @ rest = 34 # rest\<close> by (simp add: js_def)
  have n: \<open>strip_prefix (js ''src'') (js ''href'' @ t) = None\<close> for t
    by (simp add: js_def)
  note l = lazy_until_quote_name [OF assms(2), of rest]
  from assms(1) show ?thesis
  proof
    assume "attr = js ''src''"
    then show ?thesis
      by (simp only: match_asset_ref_def strip_prefix_append q l option.case prod.case)
  next
    assume "attr = js ''href''"
    then show ?thesis
      by (simp only: match_asset_ref_def strip_prefix_append n q l option.case prod.case)
  qed
qed

lemma match_asset_ref_prefix:
  assumes "match_asset_ref s = Some x"
  shows \<open>prefix (js ''src="./assets/'') s \<or> prefix (js ''href="./assets/'') s\<close>
proof -
  have a: \<open>js ''src="./assets/'' = js ''src'' @ js ''="./assets/''\<close>
    \<open>js ''href="./assets/'' = js ''href'' @ js ''="./assets/''\<close>
    by (simp_all add: js_def)
  from assms show ?thesis
    unfolding a
    by (auto simp: match_asset_ref_def strip_prefix_Some_iff split: option.splits)
qed

lemma js_includes_iff: "js_includes s t \<longleftrightarrow> (\<exists>a c. s = a @ t @ c)"
proof (induction s)
  case Nil
  then show ?case by auto
next
  case (Cons x s)
  show ?case
  proof
    assume "js_includes (x # s) t"
    then consider "prefix t (x # s)" | "js_includes s t" by auto
    then show "\<exists>a c. x # s = a @ t @ c"
    proof cases
      case 1
      then obtain c where "x # s = t @ c" by (auto simp: prefix_def)
      then have "x # s = [] @ t @ c" by simp
      then show ?thesis by blast
    next
      case 2
      with Cons.IH obtain a c where "s = a @ t @ c" by blast
      then have "x # s = (x # a) @ t @ c" by simp
      then show ?thesis by blast
    qed
  next
    assume "\<exists>a c. x # s = a @ t @ c"
    then obtain a c where e: "x # s = a @ t @ c" by blast
    show "js_includes (x # s) t"
    proof (cases a)
      case Nil
      with e have "prefix t (x # s)" by (simp add: prefix_def)
      then show ?thesis by simp
    next
      case (Cons y a')
      with e have "s = a' @ t @ c" by simp
      with Cons.IH have "js_includes s t" by blast
      then show ?thesis by simp
    qed
  qed
qed


lemma no_src_prefix_inside:
  assumes "u \<noteq> []" and "inert_text u" and "starts_ref k"
  shows \<open>\<not> prefix (js ''src="./assets/'') (u @ k)\<close>
proof
  assume \<open>prefix (js ''src="./assets/'') (u @ k)\<close>
  then consider \<open>prefix (js ''src="./assets/'') u\<close>
    | us where \<open>js ''src="./assets/'' = u @ us\<close> "prefix us k"
    by (auto simp: prefix_append)
  then show False
  proof cases
    case 1
    then obtain c where \<open>u = js ''src="./assets/'' @ c\<close> by (auto simp: prefix_def)
    then have \<open>u = js ''src'' @ js ''="./assets/'' @ c\<close> by (simp add: js_def)
    then have \<open>js_includes u (js ''="./assets/'')\<close> unfolding js_includes_iff by blast
    with assms(2) show False by (simp add: inert_text_def)
  next
    case 2
    from 2(1) assms(1) have
      "u = [115] \<or> u = [115,114] \<or> u = [115,114,99] \<or> u = [115,114,99,61]
       \<or> u = [115,114,99,61,34] \<or> u = [115,114,99,61,34,46] \<or> u = [115,114,99,61,34,46,47]
       \<or> u = [115,114,99,61,34,46,47,97] \<or> u = [115,114,99,61,34,46,47,97,115]
       \<or> u = [115,114,99,61,34,46,47,97,115,115] \<or> u = [115,114,99,61,34,46,47,97,115,115,101]
       \<or> u = [115,114,99,61,34,46,47,97,115,115,101,116]
       \<or> u = [115,114,99,61,34,46,47,97,115,115,101,116,115]
       \<or> u = [115,114,99,61,34,46,47,97,115,115,101,116,115,47]"
      by (auto simp: js_def append_eq_Cons_conv Cons_eq_append_conv)
    with 2 assms(2,3) show False
      by (auto simp: js_def starts_ref_def inert_text_def)
  qed
qed


lemma no_href_prefix_inside:
  assumes "u \<noteq> []" and "inert_text u" and "starts_ref k"
  shows \<open>\<not> prefix (js ''href="./assets/'') (u @ k)\<close>
proof
  assume \<open>prefix (js ''href="./assets/'') (u @ k)\<close>
  then consider \<open>prefix (js ''href="./assets/'') u\<close>
    | us where \<open>js ''href="./assets/'' = u @ us\<close> "prefix us k"
    by (auto simp: prefix_append)
  then show False
  proof cases
    case 1
    then obtain c where \<open>u = js ''href="./assets/'' @ c\<close> by (auto simp: prefix_def)
    then have \<open>u = js ''href'' @ js ''="./assets/'' @ c\<close> by (simp add: js_def)
    then have \<open>js_includes u (js ''="./assets/'')\<close> unfolding js_includes_iff by blast
    with assms(2) show False by (simp add: inert_text_def)
  next
    case 2
    from 2(1) assms(1) have
      "u = [104] \<or> u = [104,114] \<or> u = [104,114,101] \<or> u = [104,114,101,102]
       \<or> u = [104,114,101,102,61]
       \<or> u = [104,114,101,102,61,34] \<or> u = [104,114,101,102,61,34,46]
       \<or> u = [104,114,101,102,61,34,46,47]
       \<or> u = [104,114,101,102,61,34,46,47,97] \<or> u = [104,114,101,102,61,34,46,47,97,115]
       \<or> u = [104,114,101,102,61,34,46,47,97,115,115]
       \<or> u = [104,114,101,102,61,34,46,47,97,115,115,101]
       \<or> u = [104,114,101,102,61,34,46,47,97,115,115,101,116]
       \<or> u = [104,114,101,102,61,34,46,47,97,115,115,101,116,115]
       \<or> u = [104,114,101,102,61,34,46,47,97,115,115,101,116,115,47]"
      by (auto simp: js_def append_eq_Cons_conv Cons_eq_append_conv)
    with 2 assms(2,3) show False
      by (auto simp: js_def starts_ref_def inert_text_def)
  qed
qed

lemma no_match_inside:
  assumes "u \<noteq> []" and "inert_text u" and "starts_ref k"
  shows "match_asset_ref (u @ k) = None"
proof (cases "match_asset_ref (u @ k)")
  case None
  then show ?thesis .
next
  case (Some x)
  from match_asset_ref_prefix [OF this]
    no_src_prefix_inside [OF assms] no_href_prefix_inside [OF assms]
  show ?thesis by blast
qed

lemma inert_text_tl: "inert_text (c # cs) \<Longrightarrow> inert_text cs"
  by (simp add: inert_text_def)

lemma replace_inert_text:
  "inert_text t \<Longrightarrow> starts_ref k \<Longrightarrow>
   replace_asset_refs template pre (t @ k) = t @ replace_asset_refs template (pre @ t) k"
proof (induction t arbitrary: pre)
  case Nil
  then show ?case by simp
next
  case (Cons c cs)
  have "match_asset_ref ((c # cs) @ k) = None"
    using Cons.prems by (intro no_match_inside) simp_all
  then have "replace_asset_refs template pre ((c # cs) @ k) =
             c # replace_asset_refs template (pre @ [c]) (cs @ k)"
    by simp
  also have "\<dots> = c # cs @ replace_asset_refs template ((pre @ [c]) @ cs) k"
    using Cons.prems by (simp only: Cons.IH [OF inert_text_tl [OF Cons.prems(1)] Cons.prems(2)])
  finally show ?case by simp
qed

lemma replace_at_match:
  assumes "match_asset_ref s = Some (attr, name, rest)"
  shows "replace_asset_refs template pre s =
           get_substitution (take (length s - length rest) s) pre rest [attr, name] template @
           replace_asset_refs template (pre @ take (length s - length rest) s) rest"
proof (cases s)
  case Nil
  with assms show ?thesis by (simp add: match_asset_ref_def js_def)
next
  case (Cons c cs)
  with assms show ?thesis by (simp add: Let_def)
qed

lemma starts_ref_source: "list_all well_formed_segment segs \<Longrightarrow> starts_ref (source_of segs)"
proof (cases segs)
  case Nil
  then show ?thesis by (simp add: starts_ref_def)
next
  case (Cons seg segs')
  obtain attr name after where seg: "seg = (attr, name, after)" by (cases seg)
  assume "list_all well_formed_segment segs"
  with Cons seg have "attr = js ''src'' \<or> attr = js ''href''" by simp
  then show ?thesis
    unfolding Cons seg by (auto simp: starts_ref_def js_def)
qed

lemma replace_segments:
  assumes "36 \<notin> set base"
  shows "inert_text t0 \<Longrightarrow> list_all well_formed_segment segs \<Longrightarrow>
         replace_asset_refs (asset_template base) pre (t0 @ source_of segs) =
           t0 @ rewritten_of base segs"
proof (induction segs arbitrary: pre t0)
  case Nil
  from replace_inert_text [OF Nil(1), of "[]" "asset_template base" pre]
  show ?case by (simp add: starts_ref_def)
next
  case (Cons seg segs)
  obtain attr name after where seg: "seg = (attr, name, after)" by (cases seg)
  from Cons.prems(2) seg have wf: "attr = js ''src'' \<or> attr = js ''href''"
    "list_all (\<lambda>c. c \<noteq> 34 \<and> \<not> is_line_terminator c) name" "inert_text after"
    "list_all well_formed_segment segs"
    by simp_all
  let ?rest = "after @ source_of segs"
  let ?matched = \<open>attr @ js ''="./assets/'' @ name @ js ''"''\<close>
  let ?s = "?matched @ ?rest"
  have src: "source_of (seg # segs) = ?s" by (simp add: seg)
  have m: "match_asset_ref ?s = Some (attr, name, ?rest)"
    using match_asset_ref_at [OF wf(1,2), of ?rest] by simp
  have tk: "take (length ?s - length ?rest) ?s = ?matched" by simp
  have "replace_asset_refs (asset_template base) pre (t0 @ source_of (seg # segs)) =
        t0 @ replace_asset_refs (asset_template base) (pre @ t0) (source_of (seg # segs))"
    by (rule replace_inert_text [OF Cons.prems(1) starts_ref_source [OF Cons.prems(2)]])
  also have "replace_asset_refs (asset_template base) (pre @ t0) (source_of (seg # segs)) =
        get_substitution ?matched (pre @ t0) ?rest [attr, name] (asset_template base) @
        replace_asset_refs (asset_template base) ((pre @ t0) @ ?matched) ?rest"
    unfolding src using replace_at_match [OF m, of "asset_template base" "pre @ t0"]
    by (simp only: tk)
  also have "get_substitution ?matched (pre @ t0) ?rest [attr, name] (asset_template base) =
        attr @ js ''=\"'' @ base @ js ''/assets/'' @ name @ js ''\"''"
    by (rule expand_asset_template [OF assms])
  also have "replace_asset_refs (asset_template base) ((pre @ t0) @ ?matched) ?rest =
        after @ rewritten_of base segs"
    by (rule Cons.IH [OF wf(3,4)])
  finally show ?case by (simp add: seg)
qed

text \<open>
  Claim C8, amended. Take a translated root without the character \<open>$\<close> and a
  document in which every occurrence of \<open>="./assets/\<close> belongs to an attribute
  \<open>src="./assets/name"\<close> or \<open>href="./assets/name"\<close> whose name holds no double quote
  and no line terminator. The first \<open>replace\<close> of the renderer turns each of these
  attributes into \<open>src="base/assets/name"\<close> or \<open>href="base/assets/name"\<close>, with the
  same root in every one, and copies all the other text unchanged.
\<close>

theorem asset_references_rewritten:
  assumes "36 \<notin> set base" and "inert_text t0" and "list_all well_formed_segment segs"
  shows "rewrite_assets base (t0 @ source_of segs) = t0 @ rewritten_of base segs"
  unfolding rewrite_assets_def by (rule replace_segments [OF assms])

theorem asset_references_rewritten_witness:
  \<open>36 \<notin> set base0 \<and>
   inert_text (js ''<script '') \<and>
   list_all well_formed_segment
     [(js ''src'', js ''x.js'', js ''></script><link ''), (js ''href'', js ''a.css'', js ''>'')] \<and>
   rewrite_assets base0 doc_double_quoted =
     js ''<script src="'' @ base0 @ js ''/assets/x.js"></script><link href="'' @ base0 @
     js ''/assets/a.css">''\<close>
proof -
  have a: "36 \<notin> set base0" by (simp add: base0_def js_def)
  have b: "inert_text (js ''<script '')" by (simp add: inert_text_def js_def)
  have c: "list_all well_formed_segment
     [(js ''src'', js ''x.js'', js ''></script><link ''), (js ''href'', js ''a.css'', js ''>'')]"
    by (simp add: inert_text_def is_line_terminator_def js_def)
  have d: \<open>js ''<script '' @ source_of
     [(js ''src'', js ''x.js'', js ''></script><link ''), (js ''href'', js ''a.css'', js ''>'')] =
     doc_double_quoted\<close>
    by (simp add: doc_double_quoted_def js_def)
  have e: \<open>js ''<script '' @ rewritten_of base0
     [(js ''src'', js ''x.js'', js ''></script><link ''), (js ''href'', js ''a.css'', js ''>'')] =
     js ''<script src="'' @ base0 @ js ''/assets/x.js"></script><link href="'' @ base0 @
     js ''/assets/a.css">''\<close>
    by (simp add: js_def)
  from asset_references_rewritten [OF a b c] have
    \<open>rewrite_assets base0 doc_double_quoted =
     js ''<script src="'' @ base0 @ js ''/assets/x.js"></script><link href="'' @ base0 @
     js ''/assets/a.css">''\<close>
    by (simp only: d e)
  with a b c show ?thesis by blast
qed

text \<open>
  The claim C8 as stated fails: a reference of the form \<open>./assets/name\<close> in a
  single-quoted attribute is not matched by the regular expression, and the document
  comes back unchanged, with no reference rooted at the translated directory.
\<close>

theorem single_quoted_reference_counterexample:
  \<open>js_includes doc_single_quoted (js ''./assets/x.js'') \<and>
   rewrite_assets base0 doc_single_quoted = doc_single_quoted \<and>
   \<not> js_includes (rewrite_assets base0 doc_single_quoted) (base0 @ js ''/assets/x.js'')\<close>
proof -
  have a: "js_includes doc_single_quoted (js ''./assets/x.js'')"
    by (simp add: doc_single_quoted_def js_def)
  have b: "rewrite_assets base0 doc_single_quoted = doc_single_quoted"
    by (simp add: rewrite_assets_def doc_single_quoted_def match_asset_ref_def js_def)
  have c: "\<not> js_includes doc_single_quoted (base0 @ js ''/assets/x.js'')"
    by (simp add: doc_single_quoted_def base0_def js_def)
  from a b c show ?thesis by simp
qed

end
